theory Spec2Isabelle
  imports Complex_Main
begin

section \<open>Common Python run-time errors\<close>

text \<open>
  Every exception the modelled functions can raise is a value of this type; a function
  that may raise returns \<open>py_error + 'a\<close> with \<open>Inl\<close> for the exception.
\<close>

datatype py_error =
    ZeroDivisionError
  | ValueError
  | IndexError
  | KeyError string
  | NameError string
  | AttributeError string
  | IOError string
  | TypeError
  | NotImplementedError
  | RuntimeError

text \<open>Sequencing of statements that may raise: the first exception ends the run.\<close>

definition bind_err :: "py_error + 'a \<Rightarrow> ('a \<Rightarrow> py_error + 'b) \<Rightarrow> py_error + 'b" where
  "bind_err m f = (case m of Inl e \<Rightarrow> Inl e | Inr x \<Rightarrow> f x)"

text \<open>
  Python's \<open>a / b\<close> on floats: raises \<open>ZeroDivisionError\<close> when the divisor is zero.
  Floats are idealised as reals; rounding is not modelled.
\<close>

definition py_truediv :: "real \<Rightarrow> real \<Rightarrow> py_error + real" where
  "py_truediv a b = (if b = 0 then Inl ZeroDivisionError else Inr (a / b))"

section \<open>utils.inf\_data\_gen\<close>

text \<open>
  \<^verbatim>\<open>
  def inf_data_gen(loader):
      while True:
          for s in loader:
              yield s
  \<close>
  The loader is a finite source that yields the same sequence on every pass, so it is a
  list. The generator's state is the position \<open>i\<close> of the inner \<open>for\<close> loop. A call of
  \<open>__next__\<close> resumes the generator: when the inner iterator is exhausted the \<open>while\<close>
  loop starts a fresh pass. Over an empty loader this never reaches a \<open>yield\<close>, which
  the model shows as \<open>None\<close>.
\<close>

partial_function (option) gen_next :: "'a list \<Rightarrow> nat \<Rightarrow> ('a \<times> nat) option" where
  "gen_next loader i =
     (if i < length loader then Some (loader ! i, Suc i) else gen_next loader 0)"

text \<open>The first \<open>m\<close> elements drawn from the generator, starting in state \<open>i\<close>.\<close>

fun gen_take :: "'a list \<Rightarrow> nat \<Rightarrow> nat \<Rightarrow> 'a list option" where
  "gen_take loader i 0 = Some []"
| "gen_take loader i (Suc m) =
     (case gen_next loader i of
        None \<Rightarrow> None
      | Some (x, j) \<Rightarrow> map_option ((#) x) (gen_take loader j m))"

definition inf_data_gen :: "'a list \<Rightarrow> nat \<Rightarrow> 'a list option" where
  "inf_data_gen loader m = gen_take loader 0 m"

section \<open>train\_uns.Trainer.valid\<close>

text \<open>
  \<^verbatim>\<open>
  def valid(self, loader, step):
      total_loss = 0.
      with torch.no_grad():
          for i, sample in enumerate(tqdm(loader, ncols = NCOL)):
              ...
              loss, max_snr, estimate_source, reorder_estimate_source = \
                  cal_loss(padded_source, estimate_source, mixture_lengths)
              total_loss += loss.item()
      total_loss = total_loss / len(self.tr_loader)
  \<close>
  \<open>pit_loss\<close> stands for the model's forward pass followed by \<open>cal_loss\<close> on one batch
  (both live outside this file); \<open>tr_loader\<close> is the trainer's training loader and
  \<open>loader\<close> the loader handed to \<open>valid\<close> (\<open>exec\<close> passes \<open>self.cv_loader\<close>).
\<close>

definition uns_valid :: "('b \<Rightarrow> real) \<Rightarrow> 'b list \<Rightarrow> 'b list \<Rightarrow> py_error + real" where
  "uns_valid pit_loss tr_loader loader =
     (let total_loss = foldl (\<lambda>acc sample. acc + pit_loss sample) 0 loader
      in py_truediv total_loss (real (length tr_loader)))"

section \<open>dataset.wsj0\<close>

text \<open>
  The dataset object. \<open>data\<close> is the unpickled id list, a dictionary
  \<open>uid \<mapsto> {speaker: (path, length)}\<close> kept as association lists in iteration order;
  \<open>files\<close> is what \<open>sf.read\<close> finds on disk; \<open>seg_len\<close> is the attribute
  \<open>self.seg_len\<close>, absent when the constructor was called with \<open>seg_len = -1\<close>;
  \<open>id_list\<close> holds the entries \<open>[utt id, chunk id, start, end]\<close>.
  Audio samples (\<open>np.float32\<close>) are idealised as reals.
\<close>

type_synonym audio = "real list"

type_synonym info = "string \<times> string \<times> int \<times> int"

record wsj0 =
  data :: "(string \<times> (string \<times> string \<times> int) list) list"
  files :: "string \<rightharpoonup> audio"
  seg_len :: "int option"
  pre_load :: bool
  one_chunk :: bool
  id_list :: "info list"
  audios :: "(string \<times> (string \<times> audio) list) list"

record sample =
  uid :: string
  cid :: string
  ilens :: int
  mix :: audio
  ref :: "audio list"

text \<open>\<open>int(x)\<close> on a float truncates towards zero.\<close>

definition py_int :: "real \<Rightarrow> int" where
  "py_int r = (if 0 \<le> r then \<lfloor>r\<rfloor> else \<lceil>r\<rceil>)"

text \<open>The decimal digits of \<open>i\<close> in the chunk id \<open>f'{uid}_{i}'\<close>.\<close>

fun str_nat :: "nat \<Rightarrow> string" where
  "str_nat n =
     (if n < 10 then [''0123456789'' ! n]
      else str_nat (n div 10) @ [''0123456789'' ! (n mod 10)])"

text \<open>\<open>d[k]\<close> raises \<open>KeyError\<close> on a missing key; a missing attribute raises
  \<open>AttributeError\<close>; a file that cannot be read raises an I/O error.\<close>

definition dict_get :: "(string \<times> 'v) list \<Rightarrow> string \<Rightarrow> py_error + 'v" where
  "dict_get d k = (case map_of d k of None \<Rightarrow> Inl (KeyError k) | Some v \<Rightarrow> Inr v)"

definition get_seg_len :: "int option \<Rightarrow> py_error + int" where
  "get_seg_len sl = (case sl of None \<Rightarrow> Inl (AttributeError ''seg_len'') | Some n \<Rightarrow> Inr n)"

definition sf_read :: "(string \<rightharpoonup> audio) \<Rightarrow> string \<Rightarrow> py_error + audio" where
  "sf_read fs path = (case fs path of None \<Rightarrow> Inl (IOError path) | Some a \<Rightarrow> Inr a)"

text \<open>
  \<^verbatim>\<open>
  seg_num = utt_len // self.seg_len
  if utt_len % self.seg_len > 0:
      seg_num += 1
  for i in range(seg_num):
      s = int(i * self.seg_len)
      e = int((i + 1) * self.seg_len)
      if i == seg_num - 1:
          e = min([e, utt_len])
      info = [ uid, f'{uid}_{i}', s, e ]
      self.id_list.append(info)
  \<close>
  Python's \<open>//\<close> and \<open>%\<close> on integers are floor division and its remainder, as
  \<open>div\<close> and \<open>mod\<close> on \<open>int\<close>; both raise on a zero divisor.
\<close>

definition split_chunks :: "string \<Rightarrow> int \<Rightarrow> int \<Rightarrow> py_error + info list" where
  "split_chunks u utt_len seg =
     (if seg = 0 then Inl ZeroDivisionError
      else let seg_num0 = utt_len div seg;
               seg_num = (if utt_len mod seg > 0 then seg_num0 + 1 else seg_num0)
           in Inr (map (\<lambda>i. (u, u @ ''_'' @ str_nat (nat i), i * seg,
                            (if i = seg_num - 1 then min ((i + 1) * seg) utt_len
                             else (i + 1) * seg)))
                       [0..seg_num - 1]))"

text \<open>
  The body of the constructor's loop \<open>for uid in self.data\<close>:
  \<^verbatim>\<open>
  path, utt_len = self.data[uid]['mix']
  if mode == 'tr':
      if utt_len >= self.seg_len:
          if self.one_chunk:
              info = [ uid, uid, -1, -1 ]
              self.id_list.append(info)
          else:
              (split into chunks)
      else:
          drop_num += 1
          drop_len += utt_len
  else: # in cv and tt, don't filter short utt
      (split into chunks)
  \<close>
\<close>

definition utt_infos :: "int option \<Rightarrow> bool \<Rightarrow> string \<Rightarrow> string \<Rightarrow> (string \<times> string \<times> int) list
    \<Rightarrow> py_error + info list" where
  "utt_infos sl one mode u chans =
     bind_err (dict_get chans ''mix'') (\<lambda>(path, utt_len).
     bind_err (get_seg_len sl) (\<lambda>seg.
       if mode = ''tr'' then
         (if utt_len \<ge> seg then
            (if one then Inr [(u, u, -1, -1)] else split_chunks u utt_len seg)
          else Inr [])
       else split_chunks u utt_len seg))"

fun build_id_list :: "int option \<Rightarrow> bool \<Rightarrow> string
    \<Rightarrow> (string \<times> (string \<times> string \<times> int) list) list \<Rightarrow> py_error + info list" where
  "build_id_list sl one mode [] = Inr []"
| "build_id_list sl one mode ((u, chans) # rest) =
     bind_err (utt_infos sl one mode u chans) (\<lambda>infos.
     bind_err (build_id_list sl one mode rest) (\<lambda>more. Inr (infos @ more)))"

text \<open>
  Pre-loading: \<open>self.audios[uid][speaker] = sf.read(path)\<close> for every utterance and
  speaker of the id list.
\<close>

fun load_speakers :: "(string \<rightharpoonup> audio) \<Rightarrow> (string \<times> string \<times> int) list
    \<Rightarrow> py_error + (string \<times> audio) list" where
  "load_speakers fs [] = Inr []"
| "load_speakers fs ((speaker, path, n) # rest) =
     bind_err (sf_read fs path) (\<lambda>a.
     bind_err (load_speakers fs rest) (\<lambda>more. Inr ((speaker, a) # more)))"

fun load_all :: "(string \<rightharpoonup> audio) \<Rightarrow> (string \<times> (string \<times> string \<times> int) list) list
    \<Rightarrow> py_error + (string \<times> (string \<times> audio) list) list" where
  "load_all fs [] = Inr []"
| "load_all fs ((u, chans) # rest) =
     bind_err (load_speakers fs chans) (\<lambda>a.
     bind_err (load_all fs rest) (\<lambda>more. Inr ((u, a) # more)))"

text \<open>
  The constructor \<open>wsj0.__init__(id_list_path, seg_len, pre_load, one_chunk_in_utt, mode)\<close>
  with \<open>self.sr = 8000\<close> and
  \<^verbatim>\<open>
  if seg_len != -1:
      self.seg_len = int(seg_len * self.sr)
  \<close>
\<close>

definition wsj0_init :: "(string \<rightharpoonup> audio) \<Rightarrow> (string \<times> (string \<times> string \<times> int) list) list
    \<Rightarrow> real \<Rightarrow> bool \<Rightarrow> bool \<Rightarrow> string \<Rightarrow> py_error + wsj0" where
  "wsj0_init fs d seg_sec pre one mode =
     (let sl = (if seg_sec \<noteq> -1 then Some (py_int (seg_sec * 8000)) else None)
      in bind_err (build_id_list sl one mode d) (\<lambda>ids.
         bind_err (if pre then load_all fs d else Inr []) (\<lambda>au.
           Inr \<lparr>data = d, files = fs, seg_len = sl, pre_load = pre, one_chunk = one,
                id_list = ids, audios = au\<rparr>)))"

text \<open>
  \<open>xs[s:e]\<close>: a negative bound counts from the end, and bounds are clipped to the
  array.
\<close>

definition py_slice :: "'a list \<Rightarrow> int \<Rightarrow> int \<Rightarrow> 'a list" where
  "py_slice xs s e =
     (let n = int (length xs);
          lo = (if s < 0 then max (s + n) 0 else min s n);
          hi = (if e < 0 then max (e + n) 0 else min e n)
      in take (nat (hi - lo)) (drop (nat lo) xs))"

text \<open>
  \<open>random.randint(a, b)\<close> draws from the closed range \<open>a..b\<close> and raises
  \<open>ValueError\<close> when the range is empty. The draw is made explicit by the argument
  \<open>rnd\<close>: every element of the range is the result for some \<open>rnd\<close>.
\<close>

definition randint :: "int \<Rightarrow> int \<Rightarrow> nat \<Rightarrow> py_error + int" where
  "randint a b rnd =
     (if b < a then Inl ValueError else Inr (a + int (rnd mod nat (b - a + 1))))"

text \<open>
  \<^verbatim>\<open>
  def pad_audio(self, audio, ilen):
      base = np.zeros(self.seg_len, dtype = np.float32)
      base[:ilen] = audio
      return base
  \<close>
  The assignment needs \<open>audio\<close> to have the length of the slice \<open>base[:ilen]\<close>, or
  length one (which numpy broadcasts); any other length raises \<open>ValueError\<close>, as does
  a negative size given to \<open>np.zeros\<close>.
\<close>

definition pad_audio :: "int \<Rightarrow> audio \<Rightarrow> int \<Rightarrow> py_error + audio" where
  "pad_audio seg a ilen =
     (if seg < 0 then Inl ValueError
      else let width = length (py_slice (replicate (nat seg) (0::real)) 0 ilen)
           in if length a = width then Inr (a @ replicate (nat seg - width) 0)
              else if length a = 1 then Inr (replicate width (hd a) @ replicate (nat seg - width) 0)
              else Inl ValueError)"

text \<open>\<open>np.stack([s1_audio, s2_audio], axis = 0)\<close> raises unless both have one shape.\<close>

definition np_stack :: "audio \<Rightarrow> audio \<Rightarrow> py_error + audio list" where
  "np_stack a b = (if length a = length b then Inr [a, b] else Inl ValueError)"

text \<open>
  The audio of one speaker of an utterance, from \<open>self.audios\<close> when pre-loaded and from
  the file named in the id list otherwise.
\<close>

definition load_channel :: "wsj0 \<Rightarrow> string \<Rightarrow> string \<Rightarrow> py_error + audio" where
  "load_channel ds u ch =
     (if pre_load ds then
        bind_err (dict_get (audios ds) u) (\<lambda>chs. dict_get chs ch)
      else
        bind_err (dict_get (data ds) u) (\<lambda>chs.
        bind_err (dict_get chs ch) (\<lambda>(path, n). sf_read (files ds) path)))"

text \<open>
  \<^verbatim>\<open>
  if self.one_chunk:
      L = len(mix_audio)
      re = L - self.seg_len
      s = random.randint(0, re - 1)
      e = s + self.seg_len
  \<close>
\<close>

definition chunk_window :: "wsj0 \<Rightarrow> audio \<Rightarrow> int \<Rightarrow> int \<Rightarrow> nat \<Rightarrow> py_error + int \<times> int" where
  "chunk_window ds mix_audio s0 e0 rnd =
     (if one_chunk ds then
        bind_err (get_seg_len (seg_len ds)) (\<lambda>seg.
        bind_err (randint 0 (int (length mix_audio) - seg - 1) rnd) (\<lambda>s.
          Inr (s, s + seg)))
      else Inr (s0, e0))"

text \<open>
  \<^verbatim>\<open>
  ilen = len(mix_audio)
  if ilen < self.seg_len:
      mix_audio = self.pad_audio(mix_audio, ilen)
      s1_audio = self.pad_audio(s1_audio, ilen)
      s2_audio = self.pad_audio(s2_audio, ilen)
  \<close>
\<close>

definition pad_chunks :: "int \<Rightarrow> audio \<Rightarrow> audio \<Rightarrow> audio \<Rightarrow> py_error + audio \<times> audio \<times> audio" where
  "pad_chunks seg mix_c s1_c s2_c =
     (let ilen = int (length mix_c)
      in if ilen < seg then
           bind_err (pad_audio seg mix_c ilen) (\<lambda>m.
           bind_err (pad_audio seg s1_c ilen) (\<lambda>a.
           bind_err (pad_audio seg s2_c ilen) (\<lambda>b. Inr (m, a, b))))
         else Inr (mix_c, s1_c, s2_c))"

text \<open>
  \<open>wsj0.__getitem__(idx)\<close>: look the entry up, load the three channels, choose the
  window, cut, pad, stack the references and return the sample. The loader only asks
  for indices \<open>0 \<le> idx\<close>.
\<close>

definition getitem :: "wsj0 \<Rightarrow> nat \<Rightarrow> nat \<Rightarrow> py_error + sample" where
  "getitem ds idx rnd =
     (if length (id_list ds) \<le> idx then Inl IndexError
      else case id_list ds ! idx of (u, c, s0, e0) \<Rightarrow>
        bind_err (load_channel ds u ''mix'') (\<lambda>mix_audio.
        bind_err (load_channel ds u ''s1'') (\<lambda>s1_audio.
        bind_err (load_channel ds u ''s2'') (\<lambda>s2_audio.
        bind_err (chunk_window ds mix_audio s0 e0 rnd) (\<lambda>(s, e).
        bind_err (get_seg_len (seg_len ds)) (\<lambda>seg.
        bind_err (pad_chunks seg (py_slice mix_audio s e) (py_slice s1_audio s e)
                    (py_slice s2_audio s e)) (\<lambda>(m, a, b).
        bind_err (np_stack a b) (\<lambda>sep_audio.
          Inr \<lparr>uid = u, cid = c, ilens = int (length (py_slice mix_audio s e)),
               mix = m, ref = sep_audio\<rparr>))))))))"

text \<open>
  A small corpus used to exercise the dataset: utterance \<open>a\<close> has six samples,
  utterance \<open>b\<close> has four, and the segment length is four samples
  (\<open>seg_len = 1/2000\<close> seconds at 8000 Hz).
\<close>

definition ex_files :: "string \<rightharpoonup> audio" where
  "ex_files = [''a_mix'' \<mapsto> [1, 2, 3, 4, 5, 6], ''a_s1'' \<mapsto> [1, 1, 1, 1, 1, 1],
               ''a_s2'' \<mapsto> [0, 1, 2, 3, 4, 5],
               ''b_mix'' \<mapsto> [1, 2, 3, 4], ''b_s1'' \<mapsto> [1, 1, 1, 1], ''b_s2'' \<mapsto> [0, 1, 2, 3]]"

definition ex_data :: "(string \<times> (string \<times> string \<times> int) list) list" where
  "ex_data = [(''a'', [(''mix'', ''a_mix'', 6), (''s1'', ''a_s1'', 6), (''s2'', ''a_s2'', 6)]),
              (''b'', [(''mix'', ''b_mix'', 4), (''s1'', ''b_s1'', 4), (''s2'', ''b_s2'', 4)])]"

definition ex_cv :: wsj0 where
  "ex_cv = \<lparr>data = ex_data, files = ex_files, seg_len = Some 4, pre_load = False,
            one_chunk = False,
            id_list = [(''a'', ''a_0'', 0, 4), (''a'', ''a_1'', 4, 6), (''b'', ''b_0'', 0, 4)],
            audios = []\<rparr>"

definition ex_tr :: wsj0 where
  "ex_tr = \<lparr>data = ex_data, files = ex_files, seg_len = Some 4, pre_load = False,
            one_chunk = True,
            id_list = [(''a'', ''a'', -1, -1), (''b'', ''b'', -1, -1)],
            audios = []\<rparr>"






section \<open>test\_baseline.Tester.evaluate\<close>

text \<open>
  The gender categories are the keys \<open>'MM'\<close>, \<open>'FF'\<close>, \<open>'MF'\<close> of the three
  dictionaries \<open>gender_SISNRi\<close>, \<open>gender_SDR\<close> and \<open>gender_cnt\<close>; the gender mapper
  returns one of them for every utterance id.
\<close>

datatype gender = MM | FF | MF

fun str_gender :: "gender \<Rightarrow> string" where
  "str_gender MM = ''MM''"
| "str_gender FF = ''FF''"
| "str_gender MF = ''MF''"

text \<open>
  One batch as \<open>evaluate\<close> sees it after the forward pass: the batch loss that
  \<open>cal_loss\<close> returns and, for each of its \<open>B\<close> examples, the utterance id and the
  values of \<open>cal_SISNRi\<close> and \<open>cal_SDR\<close> (all computed outside this file; floats are
  idealised as reals).
\<close>

record example =
  e_uid :: string
  e_sisnri :: real
  e_sdr :: real

record batch =
  b_loss :: real
  b_examples :: "example list"

text \<open>The accumulators of \<open>evaluate\<close> and the result dictionary it returns.\<close>

record eval_acc =
  total_loss :: real
  total_SISNRi :: real
  total_SDR :: real
  total_cnt :: nat
  gender_SISNRi :: "gender \<Rightarrow> real"
  gender_SDR :: "gender \<Rightarrow> real"
  gender_cnt :: "gender \<Rightarrow> nat"

record eval_result =
  res_total_loss :: real
  res_total_SDRi :: real
  res_total_SISNRi :: real
  res_gender_SDRi :: "gender \<Rightarrow> real"
  res_gender_SISNRi :: "gender \<Rightarrow> real"

definition acc_init :: eval_acc where
  "acc_init = \<lparr>total_loss = 0, total_SISNRi = 0, total_SDR = 0, total_cnt = 0,
               gender_SISNRi = (\<lambda>g. 0), gender_SDR = (\<lambda>g. 0), gender_cnt = (\<lambda>g. 0)\<rparr>"

text \<open>
  \<^verbatim>\<open>
  for b in range(B):
      ...
      g = self.g_mapper(uid, dataset)
      gender_cnt[g] += 1
      sisnri = cal_SISNRi(src_ref, src_est, mix)
      total_SISNRi += sisnri
      gender_SISNRi[g] += sisnri
      if self.compute_sdr:
          sdr = cal_SDR(src_ref, src_est)
          total_SDR += sdr
          gender_SDR[g] += sdr
  \<close>
\<close>

definition acc_example :: "(string \<Rightarrow> gender) \<Rightarrow> bool \<Rightarrow> eval_acc \<Rightarrow> example \<Rightarrow> eval_acc" where
  "acc_example g_mapper compute_sdr acc ex =
     (let g = g_mapper (e_uid ex);
          acc1 = acc\<lparr>gender_cnt := (gender_cnt acc)(g := gender_cnt acc g + 1),
                     total_SISNRi := total_SISNRi acc + e_sisnri ex,
                     gender_SISNRi := (gender_SISNRi acc)(g := gender_SISNRi acc g + e_sisnri ex)\<rparr>
      in if compute_sdr
         then acc1\<lparr>total_SDR := total_SDR acc + e_sdr ex,
                   gender_SDR := (gender_SDR acc)(g := gender_SDR acc g + e_sdr ex)\<rparr>
         else acc1)"

text \<open>One pass of the loop over the loader: \<open>total_loss += loss.item()\<close>,
  \<open>total_cnt += B\<close>, then the loop over the examples.\<close>

definition acc_batch :: "(string \<Rightarrow> gender) \<Rightarrow> bool \<Rightarrow> eval_acc \<Rightarrow> batch \<Rightarrow> eval_acc" where
  "acc_batch g_mapper compute_sdr acc b =
     foldl (acc_example g_mapper compute_sdr)
       (acc\<lparr>total_loss := total_loss acc + b_loss b,
            total_cnt := total_cnt acc + length (b_examples b)\<rparr>)
       (b_examples b)"

text \<open>
  \<^verbatim>\<open>
  gender_SDRi = {}
  for g in gender_SISNRi:
      gender_SISNRi[g] /= gender_cnt[g]
      if self.compute_sdr:
          sdr = gender_SDR[g] / gender_cnt[g]
          gender_SDRi[g] = sdr - sdr0[f'{dset}_{g}']
      else:
          gender_SDRi[g] = 0.
  \<close>
  The dictionary is iterated in insertion order \<open>MM\<close>, \<open>FF\<close>, \<open>MF\<close>. A category that
  no example belongs to still holds the Python floats \<open>0.\<close> it was initialised with,
  so its division is Python's and raises \<open>ZeroDivisionError\<close>.
\<close>

definition gender_average :: "bool \<Rightarrow> (string \<times> real) list \<Rightarrow> string \<Rightarrow> eval_acc
    \<Rightarrow> (gender \<Rightarrow> real) \<times> (gender \<Rightarrow> real) \<Rightarrow> gender
    \<Rightarrow> py_error + (gender \<Rightarrow> real) \<times> (gender \<Rightarrow> real)" where
  "gender_average compute_sdr sdr0 dset acc dicts g =
     (case dicts of (sisnri, sdri) \<Rightarrow>
        bind_err (py_truediv (sisnri g) (real (gender_cnt acc g))) (\<lambda>avg.
          if compute_sdr then
            bind_err (py_truediv (gender_SDR acc g) (real (gender_cnt acc g))) (\<lambda>sdr.
            bind_err (dict_get sdr0 (dset @ ''_'' @ str_gender g)) (\<lambda>base.
              Inr (sisnri(g := avg), sdri(g := sdr - base))))
          else Inr (sisnri(g := avg), sdri(g := 0))))"

fun gender_loop :: "bool \<Rightarrow> (string \<times> real) list \<Rightarrow> string \<Rightarrow> eval_acc
    \<Rightarrow> (gender \<Rightarrow> real) \<times> (gender \<Rightarrow> real) \<Rightarrow> gender list
    \<Rightarrow> py_error + (gender \<Rightarrow> real) \<times> (gender \<Rightarrow> real)" where
  "gender_loop compute_sdr sdr0 dset acc dicts [] = Inr dicts"
| "gender_loop compute_sdr sdr0 dset acc dicts (g # gs) =
     bind_err (gender_average compute_sdr sdr0 dset acc dicts g) (\<lambda>dicts'.
       gender_loop compute_sdr sdr0 dset acc dicts' gs)"

text \<open>
  \<^verbatim>\<open>
  total_loss /= total_cnt
  total_SISNRi /= total_cnt
  if self.compute_sdr:
      total_SDR /= total_cnt
      total_SDRi = total_SDR - sdr0[dset]
  else:
      total_SDRi = 0
  \<close>
  followed by the loop over the categories and the construction of the result.
\<close>

definition evaluate :: "(string \<Rightarrow> gender) \<Rightarrow> bool \<Rightarrow> (string \<times> real) list \<Rightarrow> string
    \<Rightarrow> batch list \<Rightarrow> py_error + eval_result" where
  "evaluate g_mapper compute_sdr sdr0 dset loader =
     (let acc = foldl (acc_batch g_mapper compute_sdr) acc_init loader
      in bind_err (py_truediv (total_loss acc) (real (total_cnt acc))) (\<lambda>loss.
         bind_err (py_truediv (total_SISNRi acc) (real (total_cnt acc))) (\<lambda>sisnri.
         bind_err (if compute_sdr then
                     bind_err (py_truediv (total_SDR acc) (real (total_cnt acc))) (\<lambda>sdr.
                     bind_err (dict_get sdr0 dset) (\<lambda>base. Inr (sdr - base)))
                   else Inr 0) (\<lambda>sdri.
         bind_err (gender_loop compute_sdr sdr0 dset acc (gender_SISNRi acc, (\<lambda>g. 0))
                     [MM, FF, MF]) (\<lambda>(g_sisnri, g_sdri).
           Inr \<lparr>res_total_loss = loss, res_total_SDRi = sdri, res_total_SISNRi = sisnri,
                res_gender_SDRi = g_sdri, res_gender_SISNRi = g_sisnri\<rparr>)))))"

text \<open>The examples of a split, and those of one gender category.\<close>

definition all_examples :: "batch list \<Rightarrow> example list" where
  "all_examples loader = concat (map b_examples loader)"

definition gender_examples :: "(string \<Rightarrow> gender) \<Rightarrow> gender \<Rightarrow> batch list \<Rightarrow> example list" where
  "gender_examples g_mapper g loader =
     filter (\<lambda>ex. g_mapper (e_uid ex) = g) (all_examples loader)"

text \<open>
  \<open>train_cmvn.Trainer.valid\<close> averages the same way. Its accumulators:
  \<^verbatim>\<open>
  total_loss = 0.
  total_sisnri = 0.
  cnt = 0
  genders = [ 'MF', 'MM', 'FF' ]
  gender_sisnri = { 'MF': 0., 'FF': 0., 'MM': 0, }
  gender_cnt = { 'MF': 0., 'FF': 0., 'MM': 0, }
  \<close>
  Here \<open>e_sisnri\<close> of an example is \<open>max_sisnri[b]\<close>, the best-permutation SI-SNR minus
  the SI-SNR of the mixture, and \<open>b_loss\<close> of a batch is \<open>loss.item()\<close>.
\<close>

record valid_acc =
  v_total_loss :: real
  v_total_sisnri :: real
  v_cnt :: nat
  v_gender_sisnri :: "gender \<Rightarrow> real"
  v_gender_cnt :: "gender \<Rightarrow> nat"

record valid_meta =
  epoch_loss :: real
  epoch_sisnri :: real
  epoch_gender_sisnri :: "gender \<Rightarrow> real"

definition valid_acc_init :: valid_acc where
  "valid_acc_init = \<lparr>v_total_loss = 0, v_total_sisnri = 0, v_cnt = 0,
                     v_gender_sisnri = (\<lambda>g. 0), v_gender_cnt = (\<lambda>g. 0)\<rparr>"

text \<open>
  \<^verbatim>\<open>
  for b in range(B):
      g = self.gender_mapper(uids[b], dset)
      gender_sisnri[g] += max_sisnri[b].item()
      gender_cnt[g] += 1
  \<close>
\<close>

definition valid_example :: "(string \<Rightarrow> gender) \<Rightarrow> valid_acc \<Rightarrow> example \<Rightarrow> valid_acc" where
  "valid_example gender_mapper acc ex =
     (let g = gender_mapper (e_uid ex)
      in acc\<lparr>v_gender_sisnri := (v_gender_sisnri acc)(g := v_gender_sisnri acc g + e_sisnri ex),
             v_gender_cnt := (v_gender_cnt acc)(g := v_gender_cnt acc g + 1)\<rparr>)"

text \<open>
  \<^verbatim>\<open>
  total_loss += loss.item() * B
  total_sisnri += max_sisnri.sum().item()
  cnt += B
  \<close>
  and then the loop over the examples of the batch.
\<close>

definition valid_batch :: "(string \<Rightarrow> gender) \<Rightarrow> valid_acc \<Rightarrow> batch \<Rightarrow> valid_acc" where
  "valid_batch gender_mapper acc b =
     foldl (valid_example gender_mapper)
       (acc\<lparr>v_total_loss := v_total_loss acc + b_loss b * real (length (b_examples b)),
            v_total_sisnri := v_total_sisnri acc + sum_list (map e_sisnri (b_examples b)),
            v_cnt := v_cnt acc + length (b_examples b)\<rparr>)
       (b_examples b)"

text \<open>
  \<^verbatim>\<open>
  for g in genders:
      gs = gender_sisnri[g] / gender_cnt[g]
      meta[f'{prefix}_epoch_{g}_sisnri'] = gs
  \<close>
\<close>

fun valid_gender_loop :: "valid_acc \<Rightarrow> (gender \<Rightarrow> real) \<Rightarrow> gender list
    \<Rightarrow> py_error + (gender \<Rightarrow> real)" where
  "valid_gender_loop acc meta [] = Inr meta"
| "valid_gender_loop acc meta (g # gs) =
     bind_err (py_truediv (v_gender_sisnri acc g) (real (v_gender_cnt acc g))) (\<lambda>avg.
       valid_gender_loop acc (meta(g := avg)) gs)"

text \<open>
  \<^verbatim>\<open>
  total_sisnri = total_sisnri / cnt
  total_loss = total_loss / cnt
  meta = { f'{prefix}_epoch_loss': total_loss,
           f'{prefix}_epoch_sisnri': total_sisnri }
  \<close>
  followed by the loop over the categories; the result is the dictionary \<open>meta\<close> that
  is handed to the writer. What \<open>valid\<close> does afterwards (saving) is not modelled.
\<close>

definition cmvn_valid :: "(string \<Rightarrow> gender) \<Rightarrow> batch list \<Rightarrow> py_error + valid_meta" where
  "cmvn_valid gender_mapper loader =
     (let acc = foldl (valid_batch gender_mapper) valid_acc_init loader
      in bind_err (py_truediv (v_total_sisnri acc) (real (v_cnt acc))) (\<lambda>sisnri.
         bind_err (py_truediv (v_total_loss acc) (real (v_cnt acc))) (\<lambda>loss.
         bind_err (valid_gender_loop acc (\<lambda>g. 0) [MF, MM, FF]) (\<lambda>g_sisnri.
           Inr \<lparr>epoch_loss = loss, epoch_sisnri = sisnri,
                epoch_gender_sisnri = g_sisnri\<rparr>))))"

text \<open>
  The mixture-SDR table holds every key that \<open>evaluate\<close> reads for a split: \<open>dset\<close>
  and \<open>dset_MM\<close>, \<open>dset_FF\<close>, \<open>dset_MF\<close>.
\<close>

definition sdr0_complete :: "(string \<times> real) list \<Rightarrow> string \<Rightarrow> bool" where
  "sdr0_complete sdr0 dset =
     list_all (\<lambda>k. map_of sdr0 k \<noteq> None)
       (dset # map (\<lambda>g. dset @ ''_'' @ str_gender g) [MM, FF, MF])"

text \<open>Two small splits: one without any \<open>FF\<close> example, one with all categories.\<close>

definition ex_mapper :: "string \<Rightarrow> gender" where
  "ex_mapper u = (if u = ''mm'' then MM else if u = ''ff'' then FF else MF)"

definition ex_split :: "batch list" where
  "ex_split = [\<lparr>b_loss = -3, b_examples = [\<lparr>e_uid = ''mm'', e_sisnri = 4, e_sdr = 5\<rparr>,
                                              \<lparr>e_uid = ''mf'', e_sisnri = 2, e_sdr = 3\<rparr>]\<rparr>]"
definition ex_split3 :: "batch list" where
  "ex_split3 = [\<lparr>b_loss = -3, b_examples = [\<lparr>e_uid = ''mm'', e_sisnri = 4, e_sdr = 5\<rparr>,
                                              \<lparr>e_uid = ''mf'', e_sisnri = 2, e_sdr = 3\<rparr>]\<rparr>,
   \<lparr>b_loss = -3, b_examples = [\<lparr>e_uid = ''ff'', e_sisnri = 4, e_sdr = 5\<rparr>,
                                              \<lparr>e_uid = ''mf'', e_sisnri = 6, e_sdr = 3\<rparr>]\<rparr>]"

definition ex_sdr0 :: "(string \<times> real) list" where
  "ex_sdr0 = [(''wsj0'', 0), (''wsj0_MM'', 0), (''wsj0_FF'', 0), (''wsj0_MF'', 0)]"

section \<open>The NaN guard of the adversarial training steps\<close>

text \<open>
  A Python float is a finite number, an infinity or a NaN; \<open>math.isnan\<close> is true of
  the last only.
\<close>

datatype pyfloat = Finite real | PosInf | NegInf | NaN












section \<open>train\_uns: resume\<close>

text \<open>
  The dictionary stored in a checkpoint file. A key that is absent is \<open>None\<close>.
  \<open>'w\<close> is a network's \<open>state_dict\<close>, \<open>'o\<close> an optimizer's.
\<close>

record ('w, 'o) info_dict =
  ck_epoch :: "int option"
  ck_step :: "int option"
  ck_valid_score :: "real option"
  ck_state_dict :: "'w option"
  ck_D_state_dict :: "'w option"
  ck_g_optim :: "'o option"
  ck_d_optim :: "'o option"

text \<open>The entries of \<open>config['solver']\<close> that \<open>set_model\<close> reads.\<close>

record solver_config =
  resume :: string
  resume_optim :: bool

text \<open>
  The attributes of the trainer that \<open>set_model\<close> and \<open>exec\<close> use. When \<open>set_model\<close>
  runs, \<open>total_steps\<close> and \<open>start_step\<close> hold the values of
  \<open>config['solver']['total_steps']\<close> and \<open>config['solver']['start_step']\<close>, and
  \<open>start_epoch\<close> does not exist yet.
\<close>

record ('w, 'o) uns_trainer =
  total_steps :: int
  start_step :: int
  start_epoch :: "int option"
  G :: 'w
  D :: 'w
  g_optim :: 'o
  d_optim :: 'o

definition get_key :: "string \<Rightarrow> 'a option \<Rightarrow> py_error + 'a" where
  "get_key k v = (case v of None \<Rightarrow> Inl (KeyError k) | Some x \<Rightarrow> Inr x)"

definition torch_load :: "(string \<rightharpoonup> 'c) \<Rightarrow> string \<Rightarrow> py_error + 'c" where
  "torch_load disk path = (case disk path of None \<Rightarrow> Inl (IOError path) | Some c \<Rightarrow> Inr c)"

text \<open>
  \<^verbatim>\<open>
  model_path = self.config['solver']['resume']
  if model_path != '':
      info_dict = torch.load(model_path)
      print(f"Previous score: {info_dict['valid_score']}")
      self.start_epoch = info_dict['epoch'] + 1
      self.G.load_state_dict(info_dict['state_dict'])
      self.D.load_state_dict(info_dict['D_state_dict'])
      if self.config['solver']['resume_optim']:
          optim_dict = info_dict['g_optim']
          self.g_optim.load_state_dict(optim_dict)
          optim_dict = info_dict['d_optim']
          self.d_optim.load_state_dict(optim_dict)
  \<close>
\<close>

definition uns_set_model :: "solver_config \<Rightarrow> (string \<rightharpoonup> ('w, 'o) info_dict)
    \<Rightarrow> ('w, 'o) uns_trainer \<Rightarrow> py_error + ('w, 'o) uns_trainer" where
  "uns_set_model cfg disk t =
     (if resume cfg \<noteq> '''' then
        bind_err (torch_load disk (resume cfg)) (\<lambda>info.
        bind_err (get_key ''valid_score'' (ck_valid_score info)) (\<lambda>score.
        bind_err (get_key ''epoch'' (ck_epoch info)) (\<lambda>epoch.
        bind_err (get_key ''state_dict'' (ck_state_dict info)) (\<lambda>sd.
        bind_err (get_key ''D_state_dict'' (ck_D_state_dict info)) (\<lambda>dsd.
        let t1 = t\<lparr>start_epoch := Some (epoch + 1), G := sd, D := dsd\<rparr>
        in if resume_optim cfg then
             bind_err (get_key ''g_optim'' (ck_g_optim info)) (\<lambda>go.
             bind_err (get_key ''d_optim'' (ck_d_optim info)) (\<lambda>dopt.
               Inr (t1\<lparr>g_optim := go, d_optim := dopt\<rparr>)))
           else Inr t1)))))
      else Inr t)"

text \<open>
  The steps \<open>exec\<close> runs: \<open>for step in range(self.start_step, self.total_steps)\<close>.
\<close>

definition uns_exec_steps :: "('w, 'o) uns_trainer \<Rightarrow> int list" where
  "uns_exec_steps t = [start_step t..total_steps t - 1]"

text \<open>
  The record \<open>valid\<close> hands to the saver at step \<open>step\<close>:
  \<^verbatim>\<open>
  info_dict = { 'step': step, 'valid_score': valid_score, 'config': self.config }
  info_dict['g_optim'] = self.g_optim.state_dict()
  info_dict['d_optim'] = self.d_optim.state_dict()
  info_dict['D_state_dict'] = self.D.state_dict()
  self.saver.update(self.G, total_loss, model_name, info_dict)
  \<close>
\<close>

text \<open>
  Modelled from the spec: the saver (\<open>src/saver.py\<close>, not among the sources) persists
  the record it is given together with the \<open>state_dict\<close> of the model it is given.
\<close>

definition uns_saved_checkpoint :: "('w, 'o) uns_trainer \<Rightarrow> int \<Rightarrow> real \<Rightarrow> ('w, 'o) info_dict" where
  "uns_saved_checkpoint t step score =
     \<lparr>ck_epoch = None, ck_step = Some step, ck_valid_score = Some score,
      ck_state_dict = Some (G t), ck_D_state_dict = Some (D t),
      ck_g_optim = Some (g_optim t), ck_d_optim = Some (d_optim t)\<rparr>"

text \<open>
  For comparison, the epoch-based loop of train\_cmvn. Its \<open>set_model\<close> reads the
  counters of the checkpoint into the attributes that \<open>exec\<close> uses:
  \<^verbatim>\<open>
  if self.resume_model:
      ...
      info_dict = torch.load(model_path)
      print(f"Previous score: {info_dict['valid_score']}")
      self.start_epoch = info_dict['epoch'] + 1
      if 'step' in info_dict:
          self.step = info_dict['step']
      self.model.load_state_dict(info_dict['state_dict'])
  \<close>
  and \<open>exec\<close> runs \<open>for epoch in range(self.start_epoch, self.epochs)\<close>.
\<close>

record cmvn_counters =
  c_epochs :: int
  c_start_epoch :: int
  c_step :: int

definition cmvn_resume :: "bool \<Rightarrow> ('w, 'o) info_dict \<Rightarrow> cmvn_counters \<Rightarrow> py_error + cmvn_counters" where
  "cmvn_resume resume_model info t =
     (if resume_model then
        bind_err (get_key ''valid_score'' (ck_valid_score info)) (\<lambda>score.
        bind_err (get_key ''epoch'' (ck_epoch info)) (\<lambda>epoch.
        let t1 = t\<lparr>c_start_epoch := epoch + 1\<rparr>;
            t2 = (case ck_step info of Some s \<Rightarrow> t1\<lparr>c_step := s\<rparr> | None \<Rightarrow> t1)
        in bind_err (get_key ''state_dict'' (ck_state_dict info)) (\<lambda>sd. Inr t2)))
      else Inr t)"

definition cmvn_exec_epochs :: "cmvn_counters \<Rightarrow> int list" where
  "cmvn_exec_epochs t = [c_start_epoch t..c_epochs t - 1]"

text \<open>
  A run of ten steps interrupted after the checkpoint of step 5: the trainer as it was
  when \<open>valid\<close> saved, the configuration that asks to resume from that checkpoint,
  and the trainer on which \<open>set_model\<close> then runs (new networks and optimizers).
\<close>

definition ex_trainer :: "(nat, nat) uns_trainer" where
  "ex_trainer = \<lparr>total_steps = 10, start_step = 0, start_epoch = None,
                 G = 50, D = 51, g_optim = 52, d_optim = 53\<rparr>"

definition ex_resume_cfg :: solver_config where
  "ex_resume_cfg = \<lparr>resume = ''latest.pth'', resume_optim = True\<rparr>"

definition ex_disk :: "string \<rightharpoonup> (nat, nat) info_dict" where
  "ex_disk = [''latest.pth'' \<mapsto> uns_saved_checkpoint ex_trainer 5 1]"

definition ex_fresh :: "(nat, nat) uns_trainer" where
  "ex_fresh = \<lparr>total_steps = 10, start_step = 0, start_epoch = None,
               G = 0, D = 0, g_optim = 0, d_optim = 0\<rparr>"

section \<open>train\_uns: the remix fed to the discriminator\<close>

text \<open>
  \<open>estimate_source\<close> has shape \<open>[B, C, T]\<close>: a list of \<open>B\<close> examples, each a list of
  \<open>C = 2\<close> estimated sources of \<open>T\<close> samples.

  \<open>torch.chunk(x, 2, dim = 0)\<close> cuts the first axis into pieces of
  \<open>ceil(B / 2)\<close> rows. For \<open>B = 1\<close> there is one piece only, and unpacking it into
  \<open>y1, y2\<close> raises \<open>ValueError\<close>.
\<close>

type_synonym tensor3 = "real list list list"

definition torch_chunk2 :: "'a list \<Rightarrow> py_error + 'a list \<times> 'a list" where
  "torch_chunk2 x =
     (let c = (length x + 1) div 2
      in if length x = 1 then Inl ValueError else Inr (take c x, drop c x))"

text \<open>
  \<open>y1 + y2\<close>: the two pieces agree in all but the first axis; they are added row by
  row when they have as many rows, a piece of one row is broadcast, and any other
  pair of sizes raises \<open>RuntimeError\<close>.
\<close>

definition add_rows :: "real list list \<Rightarrow> real list list \<Rightarrow> real list list" where
  "add_rows a b = map2 (map2 (+)) a b"

definition tensor_add :: "tensor3 \<Rightarrow> tensor3 \<Rightarrow> py_error + tensor3" where
  "tensor_add y1 y2 =
     (if length y1 = length y2 then Inr (map2 add_rows y1 y2)
      else if length y2 = 1 then Inr (map (\<lambda>a. add_rows a (hd y2)) y1)
      else if length y1 = 1 then Inr (map (\<lambda>b. add_rows (hd y1) b) y2)
      else Inl RuntimeError)"

text \<open>
  \<^verbatim>\<open>
  y1, y2 = torch.chunk(estimate_source, 2, dim = 0)
  remix = y1 + y2
  remix = remix.view(-1, remix.size(-1))
  \<close>
  The \<open>view\<close> merges the first two axes, so the rows of the result are the rows of
  all examples of the sum in order.
\<close>

definition remix :: "tensor3 \<Rightarrow> py_error + real list list" where
  "remix estimate_source =
     bind_err (torch_chunk2 estimate_source) (\<lambda>(y1, y2).
     bind_err (tensor_add y1 y2) (\<lambda>s. Inr (concat s)))"

text \<open>What the claim describes: row \<open>j\<close> is the sum of the two sources of example \<open>j\<close>.\<close>

definition own_sources_remix :: "tensor3 \<Rightarrow> real list list" where
  "own_sources_remix estimate_source = map (\<lambda>e. map2 (+) (e ! 0) (e ! 1)) estimate_source"

definition ex_estimate :: tensor3 where
  "ex_estimate = [[[1, 2], [3, 4]], [[10, 20], [30, 40]]]"

section \<open>train\_cmvn: the feature-statistics pre-pass\<close>

text \<open>
  The encoder output of one utterance, after \<open>squeeze(0)\<close>, is a matrix of \<open>N\<close>
  feature channels by \<open>T\<close> frames: a list of \<open>N\<close> rows of \<open>T\<close> values each.
  \<open>spec.size(-1)\<close> is the frame count. Float arithmetic is idealised as real
  arithmetic; the one place where it differs in kind, a mean over zero frames, which
  torch evaluates to NaN, is kept apart as the outcome \<open>NaNStat\<close>.
\<close>

type_synonym feature = "real list list"

datatype stat = NaNStat | Stat "real list" "real list"

definition n_frames :: "feature \<Rightarrow> nat" where
  "n_frames spec = (case spec of [] \<Rightarrow> 0 | row # _ \<Rightarrow> length row)"

text \<open>\<open>spec.mean(dim = -1)\<close>: the mean over the frames, for every channel.\<close>

definition frame_mean :: "feature \<Rightarrow> real list" where
  "frame_mean spec = map (\<lambda>row. sum_list row / real (n_frames spec)) spec"

text \<open>\<open>((spec - m.unsqueeze(-1))**2).mean(dim = -1)\<close>.\<close>

definition frame_sq_dev :: "real list \<Rightarrow> feature \<Rightarrow> real list" where
  "frame_sq_dev m spec =
     map2 (\<lambda>mc row. sum_list (map (\<lambda>x. (x - mc)\<^sup>2) row) / real (n_frames spec)) m spec"

text \<open>
  \<^verbatim>\<open>
  mm, ss = zip(*mean)
  mm = torch.stack(mm, dim = 0)
  ss = torch.FloatTensor(ss)
  m = (mm * ss.unsqueeze(-1)).sum(dim = 0) / ss.sum()
  \<close>
  for a list of pairs (per-utterance vector, frame count) over \<open>n\<close> channels.
\<close>

definition weighted_stat :: "nat \<Rightarrow> (real list \<times> nat) list \<Rightarrow> real list" where
  "weighted_stat n stats =
     map (\<lambda>c. sum_list (map (\<lambda>(m, t). m ! c * real t) stats) /
              sum_list (map (\<lambda>(m, t). real t) stats)) [0..<n]"

text \<open>
  \<open>comp_norm_stat\<close>: two passes over the training list, each applying the encoder to
  every utterance. With an empty list the unpacking of \<open>zip(*mean)\<close> raises
  \<open>ValueError\<close>; \<open>torch.stack\<close> raises unless all utterances have as many channels.
\<close>

definition comp_norm_stat :: "('a \<Rightarrow> feature) \<Rightarrow> 'a list \<Rightarrow> py_error + stat" where
  "comp_norm_stat encoder tr_list =
     (let mean = map (\<lambda>audio. (frame_mean (encoder audio), n_frames (encoder audio))) tr_list
      in if mean = [] then Inl ValueError
         else let n = length (fst (hd mean))
              in if list_ex (\<lambda>(m, t). length m \<noteq> n) mean then Inl RuntimeError
                 else if list_ex (\<lambda>(m, t). t = 0) mean then Inr NaNStat
                 else let m = weighted_stat n mean;
                          var = map (\<lambda>audio. (frame_sq_dev m (encoder audio),
                                              n_frames (encoder audio))) tr_list;
                          v = weighted_stat n var
                      in Inr (Stat m v))"

text \<open>
  The part of the model that the claim is about: the \<open>requires_grad\<close> flag of every
  parameter of the encoder, the separator and the decoder, and the normalisation
  statistics held by the model (absent until set).
\<close>

record cmvn_model =
  encoder_requires_grad :: "bool list"
  separator_requires_grad :: "bool list"
  decoder_requires_grad :: "bool list"
  norm_stat :: "stat option"

text \<open>
  \<^verbatim>\<open>
  def freeze_module(m):
      for param in m.parameters():
          param.requires_grad = False
  freeze_module(self.model.encoder)
  freeze_module(self.model.decoder)
  \<close>
\<close>

definition freeze_module :: "bool list \<Rightarrow> bool list" where
  "freeze_module params = map (\<lambda>p. False) params"

definition set_model_freeze :: "cmvn_model \<Rightarrow> cmvn_model" where
  "set_model_freeze model =
     model\<lparr>encoder_requires_grad := freeze_module (encoder_requires_grad model),
           decoder_requires_grad := freeze_module (decoder_requires_grad model)\<rparr>"

text \<open>
  Modelled from the spec: \<open>CMVNConvTasNet.set_mv\<close> (\<open>src/cmvn_tasnet.py\<close>, not among
  the sources) stores the statistics in the model, where they stay fixed.
\<close>

definition set_mv :: "stat \<Rightarrow> cmvn_model \<Rightarrow> cmvn_model" where
  "set_mv s model = model\<lparr>norm_stat := Some s\<rparr>"

text \<open>
  The constructor's \<open>set_model\<close> ends by freezing encoder and decoder; \<open>exec\<close> then
  starts with \<open>self.comp_norm_stat()\<close>, which ends with \<open>self.model.set_mv(m, v)\<close>.
\<close>

definition cmvn_prepass :: "('a \<Rightarrow> feature) \<Rightarrow> 'a list \<Rightarrow> cmvn_model \<Rightarrow> py_error + cmvn_model" where
  "cmvn_prepass encoder tr_list model =
     bind_err (comp_norm_stat encoder tr_list) (\<lambda>s. Inr (set_mv s (set_model_freeze model)))"

text \<open>
  The claim's words: the average of per-utterance values weighted by the utterances'
  frame counts, and the mean of a list of values.
\<close>

definition frame_weighted_average :: "(real \<times> nat) list \<Rightarrow> real" where
  "frame_weighted_average xs =
     sum_list (map (\<lambda>(x, t). x * real t) xs) / sum_list (map (\<lambda>(x, t). real t) xs)"

definition mean_of :: "real list \<Rightarrow> real" where
  "mean_of xs = sum_list xs / real (length xs)"

text \<open>A corpus of two utterances with one feature channel, of two and of one frame.\<close>

definition ex_corpus :: "feature list" where
  "ex_corpus = [[[1, 3]], [[8]]]"

definition ex_model :: cmvn_model where
  "ex_model = \<lparr>encoder_requires_grad = [True], separator_requires_grad = [True, True],
               decoder_requires_grad = [True], norm_stat = None\<rparr>"

section \<open>domain\_cls.DomainClassifier\<close>

text \<open>
  Python values as far as the constructor looks at them: the configuration is a
  dictionary of strings, numbers, booleans, lists and dictionaries; \<open>PObj\<close> is an
  object bound at module level or a builtin, known by its name only.
\<close>

datatype py_val =
    PStr string
  | PNum real
  | PBool bool
  | PList "py_val list"
  | PDict "(string \<times> py_val) list"
  | PObj string

text \<open>
  The names bound at module level in \<open>domain_cls.py\<close> (its imports, \<open>acts\<close> and its
  classes), and the builtins the constructors use.
\<close>

definition module_globals :: "string list" where
  "module_globals = [''torch'', ''nn'', ''apply_norm'', ''TemporalConvNet'',
     ''GlobalLayerNorm'', ''EPS'', ''acts'', ''AvgLayer'', ''LSTMClassifer'',
     ''ConvPatchClassifier'', ''DomainClassifier'', ''GLN_2D'', ''CDAN_Dis'']"

definition builtins :: "string list" where
  "builtins = [''super'', ''enumerate'', ''len'', ''range'', ''NotImplementedError'']"

text \<open>
  Reading a name inside a function: a local variable if the function has bound it,
  else a module-level name, else a builtin, else \<open>NameError\<close>.
\<close>

definition load_name :: "(string \<times> py_val) list \<Rightarrow> string \<Rightarrow> py_error + py_val" where
  "load_name locals name =
     (case map_of locals name of
        Some v \<Rightarrow> Inr v
      | None \<Rightarrow> if name \<in> set module_globals \<or> name \<in> set builtins then Inr (PObj name)
                else Inl (NameError name))"

text \<open>\<open>d[k]\<close> on a configuration value; only a dictionary can be subscripted by a key.\<close>

definition subscript :: "py_val \<Rightarrow> string \<Rightarrow> py_error + py_val" where
  "subscript d k = (case d of PDict kvs \<Rightarrow> dict_get kvs k | _ \<Rightarrow> Inl TypeError)"

text \<open>Which network a constructed classifier holds.\<close>

datatype network = ConvNet | ConvPatchNet | Conv2dNet | LSTMNet

record domain_classifier =
  mtype :: py_val
  network :: "network option"

text \<open>
  The layer loop shared by the convolutional constructors reads three keys of every
  layer's configuration:
  \<^verbatim>\<open>
  out_channel = lconf['filters']
  kernel = lconf['kernel']
  stride = lconf['stride']
  \<close>
  \<open>nn.Conv1d\<close> and \<open>apply_norm\<close> (from \<open>src.misc\<close>) are taken to succeed.
\<close>

definition layer_keys :: "py_val \<Rightarrow> py_error + unit" where
  "layer_keys lconf =
     bind_err (subscript lconf ''filters'') (\<lambda>out_channel.
     bind_err (subscript lconf ''kernel'') (\<lambda>kernel.
     bind_err (subscript lconf ''stride'') (\<lambda>stride. Inr ())))"

fun each_layer :: "('a \<Rightarrow> py_error + unit) \<Rightarrow> 'a list \<Rightarrow> py_error + unit" where
  "each_layer body [] = Inr ()"
| "each_layer body (x # rest) = bind_err (body x) (\<lambda>u. each_layer body rest)"

text \<open>
  \<open>for l, lconf in enumerate(layers)\<close>; the body also gets \<open>len(layers)\<close>. Only a
  list can be enumerated here.
\<close>

definition for_layers :: "(nat \<Rightarrow> nat \<Rightarrow> py_val \<Rightarrow> py_error + unit) \<Rightarrow> py_val \<Rightarrow> py_error + unit" where
  "for_layers body layers =
     (case layers of
        PList ls \<Rightarrow> each_layer (\<lambda>(l, lconf). body (length ls) l lconf) (enumerate 0 ls)
      | _ \<Rightarrow> Inl TypeError)"

text \<open>
  \<open>ConvPatchClassifier.__init__\<close>:
  \<^verbatim>\<open>
  norm_type = config['norm_type']
  layers = config['layers']
  use_layernorm = config.get('layernorm', False)
  ...
  for l, lconf in enumerate(layers):
      ...
  \<close>
\<close>

definition ConvPatchClassifier_init :: "nat \<Rightarrow> py_val \<Rightarrow> py_error + network" where
  "ConvPatchClassifier_init B config =
     bind_err (subscript config ''norm_type'') (\<lambda>norm_type.
     bind_err (subscript config ''layers'') (\<lambda>layers.
     bind_err (for_layers (\<lambda>n l lconf. layer_keys lconf) layers) (\<lambda>u. Inr ConvPatchNet)))"

text \<open>
  \<open>LSTMClassifer.__init__\<close>:
  \<^verbatim>\<open>
  self.num_layers = config['layers']
  self.hidden_size = config['hidden_size']
  self.dropout = config['dropout']
  \<close>
\<close>

definition LSTMClassifer_init :: "nat \<Rightarrow> py_val \<Rightarrow> py_error + network" where
  "LSTMClassifer_init B config =
     bind_err (subscript config ''layers'') (\<lambda>num_layers.
     bind_err (subscript config ''hidden_size'') (\<lambda>hidden_size.
     bind_err (subscript config ''dropout'') (\<lambda>dropout. Inr LSTMNet)))"

text \<open>
  The body of the \<open>'conv'\<close> branch of \<open>DomainClassifier.__init__\<close>. When it starts,
  the function has bound \<open>self\<close>, \<open>B\<close>, \<open>config\<close>, \<open>mtype\<close>, \<open>in_channel\<close> and
  \<open>network\<close>; it never assigns \<open>layers\<close>, \<open>norm_type\<close> or \<open>act\<close>.
  \<^verbatim>\<open>
  for l, lconf in enumerate(layers):
      out_channel = lconf['filters']
      kernel = lconf['kernel']
      stride = lconf['stride']
      ...
      layer = apply_norm(layer, norm_type)
      network.append(layer)
      if l != len(layers) - 1:
          network.append(act())
      in_channel = out_channel
  \<close>
\<close>

definition conv_branch :: "(string \<times> py_val) list \<Rightarrow> py_error + network" where
  "conv_branch locals =
     bind_err (load_name locals ''enumerate'') (\<lambda>enum.
     bind_err (load_name locals ''layers'') (\<lambda>layers.
     bind_err (for_layers (\<lambda>n l lconf.
                 bind_err (layer_keys lconf) (\<lambda>u.
                 bind_err (load_name locals ''apply_norm'') (\<lambda>f.
                 bind_err (load_name locals ''norm_type'') (\<lambda>norm_type.
                 if int l \<noteq> int n - 1
                 then bind_err (load_name locals ''act'') (\<lambda>act. Inr ())
                 else Inr ())))) layers) (\<lambda>u. Inr ConvNet)))"

text \<open>
  \<^verbatim>\<open>
  self.B = B
  mtype = config['type']
  self.mtype = mtype
  if mtype == 'conv':
      in_channel = B
      network = []
      (the loop above)
  elif mtype == 'conv-patch':
      self.network = ConvPatchClassifier(B, config)
  elif mtype == 'conv2d-patch':
      self.network = Conv2dClassifier(B, config)
  elif mtype == 'LSTM':
      in_channel = B
      self.network = LSTMClassifer(B, config)
  elif mtype == 'linear':
      raise NotImplementedError
  \<close>
  With any other type no branch is taken and the object is left without a network.
\<close>

definition DomainClassifier_init :: "nat \<Rightarrow> py_val \<Rightarrow> py_error + domain_classifier" where
  "DomainClassifier_init B config =
     bind_err (subscript config ''type'') (\<lambda>t.
       let locals = [(''B'', PNum (real B)), (''config'', config), (''mtype'', t)]
       in if t = PStr ''conv'' then
            bind_err (conv_branch (locals @ [(''in_channel'', PNum (real B)),
                                             (''network'', PList [])])) (\<lambda>n.
              Inr \<lparr>mtype = t, network = Some n\<rparr>)
          else if t = PStr ''conv-patch'' then
            bind_err (load_name locals ''ConvPatchClassifier'') (\<lambda>cls.
            bind_err (ConvPatchClassifier_init B config) (\<lambda>n.
              Inr \<lparr>mtype = t, network = Some n\<rparr>))
          else if t = PStr ''conv2d-patch'' then
            bind_err (load_name locals ''Conv2dClassifier'') (\<lambda>cls.
              Inr \<lparr>mtype = t, network = Some Conv2dNet\<rparr>)
          else if t = PStr ''LSTM'' then
            bind_err (load_name locals ''LSTMClassifer'') (\<lambda>cls.
            bind_err (LSTMClassifer_init B config) (\<lambda>n.
              Inr \<lparr>mtype = t, network = Some n\<rparr>))
          else if t = PStr ''linear'' then Inl NotImplementedError
          else Inr \<lparr>mtype = t, network = None\<rparr>)"

text \<open>
  A configuration with everything the convolutional classifiers read, for each of the
  types \<open>'conv'\<close>, \<open>'conv-patch'\<close> and \<open>'conv2d-patch'\<close>.
\<close>

definition ex_cls_config :: "string \<Rightarrow> py_val" where
  "ex_cls_config t =
     PDict [(''type'', PStr t), (''norm_type'', PStr ''spectral''),
            (''layers'', PList [PDict [(''filters'', PNum 64), (''kernel'', PNum 3),
                                        (''stride'', PNum 1)],
                                 PDict [(''filters'', PNum 1), (''kernel'', PNum 3),
                                        (''stride'', PNum 1)]])]"

section \<open>Sequencing of fallible steps\<close>

lemma bind_err_simps [simp]:
  "bind_err (Inl e) f = Inl e" "bind_err (Inr x) f = f x"
  by (simp_all add: bind_err_def)

lemma bind_err_Inr:
  "bind_err m f = Inr y \<Longrightarrow> \<exists>x. m = Inr x \<and> f x = Inr y"
  by (cases m) simp_all

lemma bind_errE:
  assumes "bind_err m f = Inr y"
  obtains x where "m = Inr x" and "f x = Inr y"
  using assms by (cases m) simp_all

section \<open>Properties of the infinite generator\<close>

lemma gen_next_in_range:
  "i < length loader \<Longrightarrow> gen_next loader i = Some (loader ! i, Suc i)"
  by (subst gen_next.simps) simp

lemma gen_next_restart:
  assumes "loader \<noteq> []" and "length loader \<le> i"
  shows "gen_next loader i = Some (loader ! 0, Suc 0)"
proof -
  have "gen_next loader i = gen_next loader 0"
    using assms(2) by (subst gen_next.simps) simp
  also have "\<dots> = Some (loader ! 0, Suc 0)"
    using assms(1) by (simp add: gen_next_in_range)
  finally show ?thesis .
qed

lemma upt_shift: "map f [0..<Suc m] = f 0 # map (\<lambda>k. f (Suc k)) [0..<m]"
proof -
  have "[0..<Suc m] = 0 # [Suc 0..<Suc m]" by (rule upt_conv_Cons) simp
  also have "[Suc 0..<Suc m] = map Suc [0..<m]" by (rule map_Suc_upt [symmetric])
  finally show ?thesis by (simp only: list.map map_map o_def)
qed

lemma gen_take_cycle:
  assumes ne: "loader \<noteq> []"
  shows "i \<le> length loader \<Longrightarrow> gen_take loader i m =
           Some (map (\<lambda>k. loader ! ((i + k) mod length loader)) [0..<m])"
proof (induction m arbitrary: i)
  case 0
  show ?case by simp
next
  case (Suc m)
  let ?n = "length loader"
  have n: "0 < ?n" using ne by simp
  have shift: "map (\<lambda>k. loader ! ((i + k) mod ?n)) [0..<Suc m] =
        loader ! ((i + 0) mod ?n) # map (\<lambda>k. loader ! ((i + Suc k) mod ?n)) [0..<m]"
    by (rule upt_shift)
  show ?case
  proof (cases "i < ?n")
    case True
    then have le: "Suc i \<le> ?n" by simp
    have nx: "gen_next loader i = Some (loader ! i, Suc i)"
      using True by (rule gen_next_in_range)
    have ih: "gen_take loader (Suc i) m =
        Some (map (\<lambda>k. loader ! ((Suc i + k) mod ?n)) [0..<m])"
      using le by (rule Suc.IH)
    have "gen_take loader i (Suc m) =
        Some (loader ! i # map (\<lambda>k. loader ! ((Suc i + k) mod ?n)) [0..<m])"
      by (simp only: gen_take.simps nx ih option.case prod.case option.map)
    also have "loader ! i = loader ! ((i + 0) mod ?n)" using True by simp
    finally show ?thesis by (simp only: shift add_Suc add_Suc_right)
  next
    case False
    with Suc.prems have i: "i = ?n" by simp
    have one: "Suc 0 \<le> ?n" using n by (simp add: Suc_le_eq)
    have nx: "gen_next loader i = Some (loader ! 0, Suc 0)"
      using ne by (rule gen_next_restart) (simp add: i)
    have ih: "gen_take loader (Suc 0) m =
        Some (map (\<lambda>k. loader ! ((Suc 0 + k) mod ?n)) [0..<m])"
      using one by (rule Suc.IH)
    have md: "(i + Suc k) mod ?n = (Suc 0 + k) mod ?n" for k
    proof -
      have "i + Suc k = ?n + (Suc 0 + k)" by (simp add: i)
      then show ?thesis by (simp only: mod_add_self1)
    qed
    have "gen_take loader i (Suc m) =
        Some (loader ! 0 # map (\<lambda>k. loader ! ((Suc 0 + k) mod ?n)) [0..<m])"
      by (simp only: gen_take.simps nx ih option.case prod.case option.map)
    also have "loader ! 0 = loader ! ((i + 0) mod ?n)" by (simp add: i)
    finally show ?thesis by (simp only: shift md)
  qed
qed

text \<open>
  C5. For a loader that yields a fixed sequence of \<open>n \<ge> 1\<close> batches per pass, every
  request to \<open>inf_data_gen\<close> is answered (it never stops and never diverges), and the
  \<open>k\<close>-th element it yields is element \<open>k mod n\<close> of one pass over the loader.
\<close>

theorem inf_data_gen_cycles:
  "loader \<noteq> [] \<Longrightarrow>
   inf_data_gen loader m = Some (map (\<lambda>k. loader ! (k mod length loader)) [0..<m])"
  using gen_take_cycle [of loader 0 m] by (simp add: inf_data_gen_def)

theorem inf_data_gen_cycles_witness:
  "[10, 20, 30 :: nat] \<noteq> [] \<and>
   inf_data_gen [10, 20, 30 :: nat] 7 = Some [10, 20, 30, 10, 20, 30, 10]"
  using inf_data_gen_cycles [of "[10, 20, 30 :: nat]" 7]
  by (simp add: upt_rec)

section \<open>Properties of the unsupervised validation pass\<close>

lemma foldl_add_sum_list:
  "foldl (\<lambda>acc s. acc + f s) (a::real) xs = a + sum_list (map f xs)"
  by (induction xs arbitrary: a) simp_all

lemma uns_valid_divides_by_tr_loader:
  "uns_valid pit_loss tr_loader loader =
     py_truediv (sum_list (map pit_loss loader)) (real (length tr_loader))"
  by (simp add: uns_valid_def foldl_add_sum_list)

text \<open>
  C7. The reported validation loss should be the sum of the per-batch losses over the
  held-out loader divided by the number of batches of that same loader. With a held-out
  loader of two batches (losses 1 and 3) and a training loader of four batches the code
  reports 1, where the mean over the held-out set is 2.
\<close>

theorem uns_valid_divides_by_wrong_loader:
  "uns_valid (\<lambda>s. s) [0, 0, 0, 0] [1, 3] = Inr 1 \<and>
   sum_list [1, 3 :: real] / real (length [1, 3 :: real]) = 2"
  by (simp add: uns_valid_def py_truediv_def)

section \<open>Properties of the dataset\<close>



lemma build_id_list_Cons:
  assumes "build_id_list sl one mode ((u, chans) # rest) = Inr ids"
  obtains infos more where "utt_infos sl one mode u chans = Inr infos"
    and "build_id_list sl one mode rest = Inr more" and "ids = infos @ more"
proof (cases "utt_infos sl one mode u chans")
  case (Inl err)
  with assms show ?thesis by simp
next
  case a: (Inr infos)
  show ?thesis
  proof (cases "build_id_list sl one mode rest")
    case (Inl err)
    with assms a show ?thesis by simp
  next
    case (Inr more)
    with assms a have "ids = infos @ more" by simp
    with a Inr show ?thesis by (rule that)
  qed
qed







lemma wsj0_init_Inr:
  assumes "wsj0_init fs d seg_sec pre one mode = Inr ds"
  shows "one_chunk ds = one \<and> data ds = d \<and>
         build_id_list (seg_len ds) one mode d = Inr (id_list ds)"
proof -
  define sl where "sl = (if seg_sec \<noteq> -1 then Some (py_int (seg_sec * 8000)) else None)"
  from assms have b: "bind_err (build_id_list sl one mode d) (\<lambda>ids.
         bind_err (if pre then load_all fs d else Inr []) (\<lambda>au.
           Inr \<lparr>data = d, files = fs, seg_len = sl, pre_load = pre, one_chunk = one,
                id_list = ids, audios = au\<rparr>)) = Inr ds"
    by (simp add: wsj0_init_def sl_def Let_def)
  then obtain ids where i: "build_id_list sl one mode d = Inr ids"
    and c: "bind_err (if pre then load_all fs d else Inr []) (\<lambda>au.
           Inr \<lparr>data = d, files = fs, seg_len = sl, pre_load = pre, one_chunk = one,
                id_list = ids, audios = au\<rparr>) = Inr ds"
    by (rule bind_errE)
  from c obtain au where
    "\<lparr>data = d, files = fs, seg_len = sl, pre_load = pre, one_chunk = one,
                id_list = ids, audios = au\<rparr> = ds"
    by (rule bind_errE) simp
  then have "ds = \<lparr>data = d, files = fs, seg_len = sl, pre_load = pre, one_chunk = one,
                id_list = ids, audios = au\<rparr>" by (rule sym)
  with i show ?thesis by simp
qed







text \<open>
  C9. In training mode with \<open>one_chunk_in_utt\<close> enabled, the length filter admits an
  utterance whose length equals the segment length, and for such an utterance
  \<open>__getitem__\<close> fails for every random draw: \<open>random.randint(0, re - 1)\<close> is called
  with \<open>re = 0\<close>, an empty range.
\<close>

theorem getitem_exact_length_fails:
  assumes init: "wsj0_init fs d seg_sec pre True ''tr'' = Inr ds"
    and seg: "seg_len ds = Some seg"
    and mem: "(u, chans) \<in> set d" and man: "dict_get chans ''mix'' = Inr (path, seg)"
    and lm: "load_channel ds u ''mix'' = Inr mix_audio"
    and len: "int (length mix_audio) = seg"
    and l1: "load_channel ds u ''s1'' = Inr s1_audio"
    and l2: "load_channel ds u ''s2'' = Inr s2_audio"
  shows "(u, u, -1, -1) \<in> set (id_list ds) \<and>
         (\<forall>idx rnd. idx < length (id_list ds) \<and> fst (id_list ds ! idx) = u \<longrightarrow>
            getitem ds idx rnd = Inl ValueError)"
proof
  from wsj0_init_Inr [OF init] have o: "one_chunk ds = True"
    and b: "build_id_list (seg_len ds) True ''tr'' d = Inr (id_list ds)"
    by simp_all
  have adm: "build_id_list (Some seg) True ''tr'' d' = Inr ids \<Longrightarrow> (u, chans) \<in> set d'
      \<Longrightarrow> (u, u, -1, -1) \<in> set ids" for d' ids
  proof (induction d' arbitrary: ids)
    case Nil
    then show ?case by simp
  next
    case (Cons uc rest)
    obtain u' chans' where uc: "uc = (u', chans')" by (cases uc)
    from Cons.prems(1) obtain infos more where
      a: "utt_infos (Some seg) True ''tr'' u' chans' = Inr infos"
      and r: "build_id_list (Some seg) True ''tr'' rest = Inr more"
      and c: "ids = infos @ more"
      unfolding uc by (rule build_id_list_Cons)
    from Cons.prems(2) uc consider "u' = u" "chans' = chans" | "(u, chans) \<in> set rest" by auto
    then show ?case
    proof cases
      case 1
      with a man have "infos = [(u, u, -1, -1)]"
        by (simp add: utt_infos_def get_seg_len_def)
      with c show ?thesis by simp
    next
      case 2
      with r have "(u, u, -1, -1) \<in> set more" by (rule Cons.IH)
      with c show ?thesis by simp
    qed
  qed
  from b seg mem show "(u, u, -1, -1) \<in> set (id_list ds)" by (intro adm [of d]) simp_all
  show "\<forall>idx rnd. idx < length (id_list ds) \<and> fst (id_list ds ! idx) = u \<longrightarrow>
            getitem ds idx rnd = Inl ValueError"
  proof (intro allI impI, elim conjE)
    fix idx rnd
    assume idx: "idx < length (id_list ds)" and u: "fst (id_list ds ! idx) = u"
    obtain u' c s0 e0 where ent: "id_list ds ! idx = (u', c, s0, e0)" by (rule prod_cases4)
    with u have [simp]: "u' = u" by simp
    have w: "chunk_window ds mix_audio s0 e0 rnd = Inl ValueError"
      by (simp add: chunk_window_def o seg get_seg_len_def randint_def len)
    show "getitem ds idx rnd = Inl ValueError"
      using idx by (simp add: getitem_def ent lm l1 l2 w)
  qed
qed

lemmas ex_defs = ex_files_def ex_data_def ex_cv_def ex_tr_def
lemmas ds_defs = wsj0_init_def py_int_def utt_infos_def split_chunks_def get_seg_len_def
  dict_get_def sf_read_def load_channel_def getitem_def chunk_window_def pad_chunks_def
  pad_audio_def py_slice_def randint_def np_stack_def Let_def


theorem getitem_exact_length_fails_witness:
  "wsj0_init ex_files ex_data (1 / 2000) False True ''tr'' = Inr ex_tr \<and>
   (''b'', ''b'', -1, -1) \<in> set (id_list ex_tr) \<and>
   getitem ex_tr 1 5 = Inl ValueError"
proof -
  have i: "wsj0_init ex_files ex_data (1 / 2000) False True ''tr'' = Inr ex_tr"
    by (simp add: ex_defs ds_defs)
  have s: "seg_len ex_tr = Some 4" by (simp add: ex_tr_def)
  have m: "(''b'', [(''mix'', ''b_mix'', 4), (''s1'', ''b_s1'', 4), (''s2'', ''b_s2'', 4)])
      \<in> set ex_data" by (simp add: ex_data_def)
  have c: "dict_get [(''mix'', ''b_mix'', 4::int), (''s1'', ''b_s1'', 4), (''s2'', ''b_s2'', 4)]
      ''mix'' = Inr (''b_mix'', 4)" by (simp add: dict_get_def)
  have lm: "load_channel ex_tr ''b'' ''mix'' = Inr [1, 2, 3, 4]"
    by (simp add: ex_defs ds_defs)
  have l1: "load_channel ex_tr ''b'' ''s1'' = Inr [1, 1, 1, 1]"
    by (simp add: ex_defs ds_defs)
  have l2: "load_channel ex_tr ''b'' ''s2'' = Inr [0, 1, 2, 3]"
    by (simp add: ex_defs ds_defs)
  have n: "int (length [1, 2, 3, 4 :: real]) = 4" by simp
  have x: "1 < length (id_list ex_tr) \<and> fst (id_list ex_tr ! 1) = ''b''"
    by (simp add: ex_tr_def)
  from getitem_exact_length_fails [OF i s m c lm n l1 l2] i x show ?thesis by blast
qed

section \<open>Properties of the evaluator\<close>

lemma foldl_acc_example_cnt:
  "gender_cnt (foldl (acc_example gm cs) acc exs) g =
     gender_cnt acc g + length (filter (\<lambda>ex. gm (e_uid ex) = g) exs)"
  by (induction exs arbitrary: acc) (simp_all add: acc_example_def Let_def)

lemma foldl_acc_example_sum:
  "gender_SISNRi (foldl (acc_example gm cs) acc exs) g =
     gender_SISNRi acc g + sum_list (map e_sisnri (filter (\<lambda>ex. gm (e_uid ex) = g) exs))"
  by (induction exs arbitrary: acc) (simp_all add: acc_example_def Let_def)

lemma foldl_acc_batch_cnt:
  "gender_cnt (foldl (acc_batch gm cs) acc loader) g =
     gender_cnt acc g + length (gender_examples gm g loader)"
  by (induction loader arbitrary: acc)
     (simp_all add: acc_batch_def foldl_acc_example_cnt gender_examples_def all_examples_def)

lemma foldl_acc_batch_sum:
  "gender_SISNRi (foldl (acc_batch gm cs) acc loader) g =
     gender_SISNRi acc g + sum_list (map e_sisnri (gender_examples gm g loader))"
  by (induction loader arbitrary: acc)
     (simp_all add: acc_batch_def foldl_acc_example_sum gender_examples_def all_examples_def)

lemma bind_err_Inr_iff:
  "(bind_err m f = Inr y) = (\<exists>x. m = Inr x \<and> f x = Inr y)"
  by (cases m) simp_all

lemma py_truediv_Inr_iff:
  "(py_truediv a b = Inr q) = (b \<noteq> 0 \<and> q = a / b)"
  by (auto simp: py_truediv_def)

lemma gender_average_Inr:
  assumes "gender_average cs sdr0 dset acc (s, d) g = Inr (s', d')"
  shows "gender_cnt acc g \<noteq> 0 \<and> s' = s(g := s g / real (gender_cnt acc g))"
  using assms
  by (auto simp: gender_average_def bind_err_Inr_iff py_truediv_Inr_iff split: if_splits)

lemma gender_loop_Inr:
  assumes "gender_loop cs sdr0 dset acc (s, d) [MM, FF, MF] = Inr (s', d')"
  shows "gender_cnt acc g \<noteq> 0 \<and> s' g = s g / real (gender_cnt acc g)"
proof -
  from assms obtain p1 p2 where
    a1: "gender_average cs sdr0 dset acc (s, d) MM = Inr p1"
    and a2: "gender_average cs sdr0 dset acc p1 FF = Inr p2"
    and a3: "gender_average cs sdr0 dset acc p2 MF = Inr (s', d')"
    by (auto simp: bind_err_Inr_iff)
  obtain s1 d1 where p1: "p1 = (s1, d1)" by (cases p1)
  obtain s2 d2 where p2: "p2 = (s2, d2)" by (cases p2)
  note r1 = gender_average_Inr [OF a1 [unfolded p1]]
  note r2 = gender_average_Inr [OF a2 [unfolded p1 p2]]
  note r3 = gender_average_Inr [OF a3 [unfolded p2]]
  show ?thesis using r1 r2 r3 by (cases g) simp_all
qed

lemma evaluate_Inr:
  assumes "evaluate gm cs sdr0 dset loader = Inr r"
  shows "\<exists>d'. gender_loop cs sdr0 dset (foldl (acc_batch gm cs) acc_init loader)
          (gender_SISNRi (foldl (acc_batch gm cs) acc_init loader), (\<lambda>g. 0)) [MM, FF, MF]
        = Inr (res_gender_SISNRi r, d')"
  using assms unfolding evaluate_def Let_def bind_err_Inr_iff
  by (elim exE conjE) (auto split: prod.splits)

lemma gender_average_zero_count:
  assumes "gender_cnt acc g = 0"
  shows "gender_average cs sdr0 dset acc p g = Inl ZeroDivisionError"
  using assms by (cases p) (simp add: gender_average_def py_truediv_def)

lemma gender_average_succeeds:
  assumes "gender_cnt acc g \<noteq> 0"
    and "cs \<longrightarrow> map_of sdr0 (dset @ ''_'' @ str_gender g) \<noteq> None"
  shows "\<exists>p'. gender_average cs sdr0 dset acc p g = Inr p'"
proof (cases p)
  case (Pair s d)
  show ?thesis
  proof (cases cs)
    case True
    with assms(2) obtain base where "map_of sdr0 (dset @ ''_'' @ str_gender g) = Some base"
      by auto
    with True assms(1) show ?thesis
      by (simp add: Pair gender_average_def py_truediv_def dict_get_def)
  next
    case False
    with assms(1) show ?thesis
      by (simp add: Pair gender_average_def py_truediv_def)
  qed
qed

lemma gender_loop_zero_count:
  assumes "cs \<longrightarrow> (\<forall>g'. map_of sdr0 (dset @ ''_'' @ str_gender g') \<noteq> None)"
    and "gender_cnt acc g = 0"
  shows "g \<in> set gs \<Longrightarrow> gender_loop cs sdr0 dset acc p gs = Inl ZeroDivisionError"
proof (induction gs arbitrary: p)
  case Nil
  then show ?case by simp
next
  case (Cons g' gs)
  show ?case
  proof (cases "gender_cnt acc g' = 0")
    case True
    then show ?thesis by (simp add: gender_average_zero_count)
  next
    case False
    from assms(1) have "cs \<longrightarrow> map_of sdr0 (dset @ ''_'' @ str_gender g') \<noteq> None" by blast
    with False obtain p' where p': "gender_average cs sdr0 dset acc p g' = Inr p'"
      using gender_average_succeeds by blast
    from False assms(2) have "g' \<noteq> g" by auto
    with Cons.prems have "g \<in> set gs" by simp
    then have "gender_loop cs sdr0 dset acc p' gs = Inl ZeroDivisionError" by (rule Cons.IH)
    with p' show ?thesis by simp
  qed
qed

lemma sdr0_complete_keys:
  assumes "sdr0_complete sdr0 dset"
  shows "map_of sdr0 dset \<noteq> None" and "map_of sdr0 (dset @ ''_'' @ str_gender g) \<noteq> None"
  using assms by (cases g; simp add: sdr0_complete_def)+

lemma evaluate_zero_count:
  assumes "compute_sdr \<longrightarrow> sdr0_complete sdr0 dset"
    and "gender_cnt (foldl (acc_batch gm compute_sdr) acc_init loader) g = 0"
  shows "evaluate gm compute_sdr sdr0 dset loader = Inl ZeroDivisionError"
proof -
  let ?acc = "foldl (acc_batch gm compute_sdr) acc_init loader"
  have keys: "compute_sdr \<longrightarrow> (\<forall>g'. map_of sdr0 (dset @ ''_'' @ str_gender g') \<noteq> None)"
    using assms(1) sdr0_complete_keys(2) by blast
  have loop: "gender_loop compute_sdr sdr0 dset ?acc p [MM, FF, MF] = Inl ZeroDivisionError" for p
    using keys assms(2) by (rule gender_loop_zero_count) (cases g; simp)
  show ?thesis
  proof (cases "total_cnt ?acc = 0")
    case True
    then show ?thesis by (simp add: evaluate_def Let_def py_truediv_def)
  next
    case False
    show ?thesis
    proof (cases compute_sdr)
      case True
      with assms(1) obtain base where "map_of sdr0 dset = Some base"
        using sdr0_complete_keys(1) by blast
      with True False loop show ?thesis
        by (simp add: evaluate_def Let_def py_truediv_def dict_get_def)
    next
      case no: False
      with False loop show ?thesis
        by (simp add: evaluate_def Let_def py_truediv_def)
    qed
  qed
qed

lemma foldl_valid_example_cnt:
  "v_gender_cnt (foldl (valid_example gm) acc exs) g =
     v_gender_cnt acc g + length (filter (\<lambda>ex. gm (e_uid ex) = g) exs)"
  by (induction exs arbitrary: acc) (simp_all add: valid_example_def Let_def)

lemma foldl_valid_example_sum:
  "v_gender_sisnri (foldl (valid_example gm) acc exs) g =
     v_gender_sisnri acc g + sum_list (map e_sisnri (filter (\<lambda>ex. gm (e_uid ex) = g) exs))"
  by (induction exs arbitrary: acc) (simp_all add: valid_example_def Let_def)

lemma foldl_valid_batch_cnt:
  "v_gender_cnt (foldl (valid_batch gm) acc loader) g =
     v_gender_cnt acc g + length (gender_examples gm g loader)"
  by (induction loader arbitrary: acc)
     (simp_all add: valid_batch_def foldl_valid_example_cnt gender_examples_def all_examples_def)

lemma foldl_valid_batch_sum:
  "v_gender_sisnri (foldl (valid_batch gm) acc loader) g =
     v_gender_sisnri acc g + sum_list (map e_sisnri (gender_examples gm g loader))"
  by (induction loader arbitrary: acc)
     (simp_all add: valid_batch_def foldl_valid_example_sum gender_examples_def all_examples_def)

lemma valid_gender_loop_zero_count:
  assumes "v_gender_cnt acc g = 0"
  shows "g \<in> set gs \<Longrightarrow> valid_gender_loop acc meta gs = Inl ZeroDivisionError"
proof (induction gs arbitrary: meta)
  case Nil
  then show ?case by simp
next
  case (Cons g' gs)
  show ?case
  proof (cases "v_gender_cnt acc g' = 0")
    case True
    then show ?thesis by (simp add: py_truediv_def)
  next
    case False
    with assms have "g' \<noteq> g" by auto
    with Cons.prems have "g \<in> set gs" by simp
    then have "valid_gender_loop acc m gs = Inl ZeroDivisionError" for m by (rule Cons.IH)
    with False show ?thesis by (simp add: py_truediv_def)
  qed
qed

lemma valid_gender_loop_Inr:
  assumes "valid_gender_loop acc meta [MF, MM, FF] = Inr meta'"
  shows "v_gender_cnt acc g \<noteq> 0 \<and>
         meta' g = v_gender_sisnri acc g / real (v_gender_cnt acc g)"
  using assms
  by (cases g) (auto simp: bind_err_Inr_iff py_truediv_Inr_iff)

lemma cmvn_valid_Inr:
  assumes "cmvn_valid gm loader = Inr meta"
  shows "valid_gender_loop (foldl (valid_batch gm) valid_acc_init loader) (\<lambda>g. 0) [MF, MM, FF]
        = Inr (epoch_gender_sisnri meta)"
  using assms unfolding cmvn_valid_def Let_def bind_err_Inr_iff
  by (elim exE conjE) auto

lemma cmvn_valid_zero_count:
  assumes "v_gender_cnt (foldl (valid_batch gm) valid_acc_init loader) g = 0"
  shows "cmvn_valid gm loader = Inl ZeroDivisionError"
proof -
  let ?acc = "foldl (valid_batch gm) valid_acc_init loader"
  have "valid_gender_loop ?acc (\<lambda>g. 0) [MF, MM, FF] = Inl ZeroDivisionError"
    using assms by (rule valid_gender_loop_zero_count) (cases g; simp)
  then show ?thesis by (simp add: cmvn_valid_def Let_def py_truediv_def)
qed

text \<open>
  C1 (as amended). \<open>Tester.evaluate\<close> and \<open>Trainer.valid\<close> of train\_cmvn divide every
  category's accumulated sum by that category's count without a guard. Whenever
  either returns its result, every category had at least one example and the
  category's average is the sum over the category divided by its count. When some
  category has no example in the split, neither returns a result: \<open>valid\<close> raises
  \<open>ZeroDivisionError\<close>, and \<open>evaluate\<close> raises an exception, which is
  \<open>ZeroDivisionError\<close> whenever SDR computation is off or the mixture-SDR table
  holds the keys of the split.
\<close>

theorem evaluate_gender_average:
  "(evaluate g_mapper compute_sdr sdr0 dset loader = Inr r \<longrightarrow>
      gender_examples g_mapper g loader \<noteq> [] \<and>
      res_gender_SISNRi r g =
        sum_list (map e_sisnri (gender_examples g_mapper g loader)) /
        real (length (gender_examples g_mapper g loader))) \<and>
   (gender_examples g_mapper g loader = [] \<longrightarrow>
      isl (evaluate g_mapper compute_sdr sdr0 dset loader) \<and>
      ((compute_sdr \<longrightarrow> sdr0_complete sdr0 dset) \<longrightarrow>
         evaluate g_mapper compute_sdr sdr0 dset loader = Inl ZeroDivisionError)) \<and>
   (cmvn_valid g_mapper loader = Inr meta \<longrightarrow>
      gender_examples g_mapper g loader \<noteq> [] \<and>
      epoch_gender_sisnri meta g =
        sum_list (map e_sisnri (gender_examples g_mapper g loader)) /
        real (length (gender_examples g_mapper g loader))) \<and>
   (gender_examples g_mapper g loader = [] \<longrightarrow>
      cmvn_valid g_mapper loader = Inl ZeroDivisionError)"
proof -
  let ?acc = "foldl (acc_batch g_mapper compute_sdr) acc_init loader"
  let ?vacc = "foldl (valid_batch g_mapper) valid_acc_init loader"
  have cnt: "gender_cnt ?acc g = length (gender_examples g_mapper g loader)"
    by (simp add: foldl_acc_batch_cnt acc_init_def)
  have sm: "gender_SISNRi ?acc g = sum_list (map e_sisnri (gender_examples g_mapper g loader))"
    by (simp add: foldl_acc_batch_sum acc_init_def)
  have vcnt: "v_gender_cnt ?vacc g = length (gender_examples g_mapper g loader)"
    by (simp add: foldl_valid_batch_cnt valid_acc_init_def)
  have vsm: "v_gender_sisnri ?vacc g =
      sum_list (map e_sisnri (gender_examples g_mapper g loader))"
    by (simp add: foldl_valid_batch_sum valid_acc_init_def)
  have A: "gender_examples g_mapper g loader \<noteq> [] \<and>
      res_gender_SISNRi r g =
        sum_list (map e_sisnri (gender_examples g_mapper g loader)) /
        real (length (gender_examples g_mapper g loader))"
    if "evaluate g_mapper compute_sdr sdr0 dset loader = Inr r" for r
  proof -
    from evaluate_Inr [OF that] obtain d' where
      "gender_loop compute_sdr sdr0 dset ?acc (gender_SISNRi ?acc, (\<lambda>g. 0)) [MM, FF, MF]
        = Inr (res_gender_SISNRi r, d')" ..
    from gender_loop_Inr [OF this, of g] show ?thesis by (simp add: cnt sm)
  qed
  have B: "isl (evaluate g_mapper compute_sdr sdr0 dset loader)"
    if "gender_examples g_mapper g loader = []"
  proof (cases "evaluate g_mapper compute_sdr sdr0 dset loader")
    case (Inl e)
    then show ?thesis by simp
  next
    case (Inr r')
    from A [OF this] that show ?thesis by simp
  qed
  have C: "evaluate g_mapper compute_sdr sdr0 dset loader = Inl ZeroDivisionError"
    if "gender_examples g_mapper g loader = []" and "compute_sdr \<longrightarrow> sdr0_complete sdr0 dset"
  proof -
    from that(1) have "gender_cnt ?acc g = 0" using cnt by simp
    with that(2) show ?thesis by (rule evaluate_zero_count)
  qed
  have D: "gender_examples g_mapper g loader \<noteq> [] \<and>
      epoch_gender_sisnri meta g =
        sum_list (map e_sisnri (gender_examples g_mapper g loader)) /
        real (length (gender_examples g_mapper g loader))"
    if "cmvn_valid g_mapper loader = Inr meta" for meta
    using valid_gender_loop_Inr [OF cmvn_valid_Inr [OF that], of g] by (simp add: vcnt vsm)
  have E: "cmvn_valid g_mapper loader = Inl ZeroDivisionError"
    if "gender_examples g_mapper g loader = []"
  proof -
    from that have "v_gender_cnt ?vacc g = 0" using vcnt by simp
    then show ?thesis by (rule cmvn_valid_zero_count)
  qed
  from A B C D E show ?thesis by blast
qed

text \<open>
  C1 as stated fails: on a split without any \<open>FF\<close> example the category is not
  omitted; the division by its zero count is carried out and raises, in \<open>evaluate\<close>
  and in \<open>valid\<close> alike.
\<close>

theorem evaluate_absent_category_counterexample:
  "gender_examples ex_mapper FF ex_split = [] \<and>
   evaluate ex_mapper False [] ''wsj0'' ex_split = Inl ZeroDivisionError \<and>
   cmvn_valid ex_mapper ex_split = Inl ZeroDivisionError"
  by (simp add: gender_examples_def all_examples_def ex_split_def ex_mapper_def
      evaluate_def acc_batch_def acc_example_def acc_init_def gender_average_def
      cmvn_valid_def valid_batch_def valid_example_def valid_acc_init_def
      py_truediv_def Let_def)

theorem evaluate_gender_average_witness:
  "map_sum id (\<lambda>r. res_gender_SISNRi r MF) (evaluate ex_mapper False [] ''wsj0'' ex_split3)
     = Inr 4 \<and>
   map_sum id (\<lambda>m. epoch_gender_sisnri m MF) (cmvn_valid ex_mapper ex_split3) = Inr 4 \<and>
   gender_examples ex_mapper FF ex_split = [] \<and>
   sdr0_complete ex_sdr0 ''wsj0'' \<and>
   evaluate ex_mapper True ex_sdr0 ''wsj0'' ex_split = Inl ZeroDivisionError \<and>
   cmvn_valid ex_mapper ex_split = Inl ZeroDivisionError"
proof -
  have "\<not> isl (evaluate ex_mapper False [] ''wsj0'' ex_split3)"
    by (simp add: ex_split3_def ex_mapper_def evaluate_def acc_batch_def acc_example_def
        acc_init_def gender_average_def py_truediv_def Let_def)
  then obtain r where e: "evaluate ex_mapper False [] ''wsj0'' ex_split3 = Inr r"
    by (cases "evaluate ex_mapper False [] ''wsj0'' ex_split3") simp_all
  have "\<not> isl (cmvn_valid ex_mapper ex_split3)"
    by (simp add: ex_split3_def ex_mapper_def cmvn_valid_def valid_batch_def
        valid_example_def valid_acc_init_def py_truediv_def Let_def)
  then obtain m where v: "cmvn_valid ex_mapper ex_split3 = Inr m"
    by (cases "cmvn_valid ex_mapper ex_split3") simp_all
  have g3: "gender_examples ex_mapper MF ex_split3 =
      [\<lparr>e_uid = ''mf'', e_sisnri = 2, e_sdr = 3\<rparr>, \<lparr>e_uid = ''mf'', e_sisnri = 6, e_sdr = 3\<rparr>]"
    by (simp add: gender_examples_def all_examples_def ex_split3_def ex_mapper_def)
  have g0: "gender_examples ex_mapper FF ex_split = []"
    by (simp add: gender_examples_def all_examples_def ex_split_def ex_mapper_def)
  have k: "sdr0_complete ex_sdr0 ''wsj0''" by (simp add: sdr0_complete_def ex_sdr0_def)
  from evaluate_gender_average [of ex_mapper False "[]" "''wsj0''" ex_split3 r MF m] e v
  have "res_gender_SISNRi r MF = 4" and "epoch_gender_sisnri m MF = 4"
    by (simp_all add: g3)
  with e v have "map_sum id (\<lambda>r. res_gender_SISNRi r MF)
      (evaluate ex_mapper False [] ''wsj0'' ex_split3) = Inr 4"
    and "map_sum id (\<lambda>m. epoch_gender_sisnri m MF) (cmvn_valid ex_mapper ex_split3) = Inr 4"
    by simp_all
  moreover
  from evaluate_gender_average [of ex_mapper True ex_sdr0 "''wsj0''" ex_split r FF m] g0 k
  have "evaluate ex_mapper True ex_sdr0 ''wsj0'' ex_split = Inl ZeroDivisionError"
    and "cmvn_valid ex_mapper ex_split = Inl ZeroDivisionError" by simp_all
  ultimately show ?thesis using g0 k by simp
qed

section \<open>Properties of the NaN guard\<close>





section \<open>Properties of resuming\<close>

lemma uns_set_model_start_step:
  assumes "uns_set_model cfg disk t = Inr t'"
  shows "start_step t' = start_step t \<and> total_steps t' = total_steps t"
  using assms
  by (auto simp: uns_set_model_def Let_def bind_err_def
      split: if_splits sum.splits)

lemma cmvn_resume_continues:
  assumes "cmvn_resume True info t = Inr t'" and "ck_epoch info = Some e"
  shows "cmvn_exec_epochs t' = [e + 1..c_epochs t - 1]"
proof -
  from assms have "c_start_epoch t' = e + 1 \<and> c_epochs t' = c_epochs t"
    by (auto simp: cmvn_resume_def get_key_def Let_def
        split: option.splits)
  then show ?thesis by (simp add: cmvn_exec_epochs_def)
qed

text \<open>
  C3. Resuming should rebuild the loop's counters from the checkpoint. \<open>valid\<close> of
  train\_uns stores the counter under the key \<open>'step'\<close> and no key \<open>'epoch'\<close>;
  \<open>set_model\<close> of train\_uns, asked to resume from the checkpoint saved at step 5,
  reads \<open>info_dict['epoch']\<close> and raises \<open>KeyError\<close>, so no counter is rebuilt.
\<close>

theorem uns_set_model_resume_key_error:
  "ck_step (uns_saved_checkpoint ex_trainer 5 1) = Some 5 \<and>
   ck_epoch (uns_saved_checkpoint ex_trainer 5 1) = None \<and>
   uns_set_model ex_resume_cfg ex_disk ex_fresh = Inl (KeyError ''epoch'')"
  by (simp add: uns_set_model_def torch_load_def get_key_def uns_saved_checkpoint_def
      ex_trainer_def ex_resume_cfg_def ex_disk_def ex_fresh_def)

section \<open>Properties of the remix\<close>

lemma concat_pairs_nth:
  assumes "\<forall>e \<in> set xss. length e = 2" and "i < length xss" and "c < 2"
  shows "concat xss ! (2 * i + c) = xss ! i ! c"
  using assms
proof (induction xss arbitrary: i)
  case Nil
  then show ?case by simp
next
  case (Cons e xss)
  from Cons.prems(1) have le: "length e = 2" by simp
  show ?case
  proof (cases i)
    case 0
    with Cons.prems(3) le show ?thesis by (simp add: nth_append)
  next
    case (Suc k)
    with Cons.prems have "concat xss ! (2 * k + c) = xss ! k ! c"
      by (intro Cons.IH) simp_all
    with Suc le show ?thesis by (simp add: nth_append)
  qed
qed

lemma concat_pairs_length:
  "\<forall>e \<in> set xss. length e = 2 \<Longrightarrow> length (concat xss) = 2 * length xss"
  by (induction xss) simp_all

text \<open>
  C6 (as amended). For an even batch size \<open>B = 2h\<close> the remix has \<open>B\<close> rows, and row
  \<open>2i + c\<close> is the sum of source \<open>c\<close> of example \<open>i\<close> and source \<open>c\<close> of example \<open>i + h\<close>:
  the two halves of the batch are mixed with each other, source by source.
\<close>

theorem remix_mixes_batch_halves:
  assumes "length estimate_source = 2 * h" and "0 < h"
    and "\<forall>e \<in> set estimate_source. length e = 2"
  shows "\<exists>rows. remix estimate_source = Inr rows \<and> length rows = 2 * h \<and>
           (\<forall>i < h. \<forall>c < 2. rows ! (2 * i + c) =
               map2 (+) (estimate_source ! i ! c) (estimate_source ! (i + h) ! c))"
proof -
  let ?y1 = "take h estimate_source" and ?y2 = "drop h estimate_source"
  let ?s = "map2 add_rows ?y1 ?y2"
  have ch: "torch_chunk2 estimate_source = Inr (?y1, ?y2)"
    using assms(1,2) by (simp add: torch_chunk2_def Let_def)
  have len: "length ?y1 = h" "length ?y2 = h" using assms(1) by simp_all
  have add: "tensor_add ?y1 ?y2 = Inr ?s" using len by (simp add: tensor_add_def)
  have r: "remix estimate_source = Inr (concat ?s)" by (simp add: remix_def ch add)
  have si: "?s ! i = add_rows (estimate_source ! i) (estimate_source ! (i + h))"
    if "i < h" for i
    using that len assms(1) by (simp add: add.commute)
  have two: "\<forall>e \<in> set ?s. length e = 2"
  proof
    fix e assume "e \<in> set ?s"
    then obtain i where i: "i < length ?s" and e: "e = ?s ! i" by (auto simp: in_set_conv_nth)
    from i len have ih: "i < h" by simp
    have "length (estimate_source ! i) = 2" "length (estimate_source ! (i + h)) = 2"
      using assms(1,3) ih by simp_all
    with e si [OF ih] show "length e = 2" by (simp add: add_rows_def)
  qed
  have ls: "length ?s = h" using len by simp
  have rows: "concat ?s ! (2 * i + c) =
      map2 (+) (estimate_source ! i ! c) (estimate_source ! (i + h) ! c)"
    if "i < h" and "c < 2" for i c
  proof -
    have "concat ?s ! (2 * i + c) = ?s ! i ! c"
      using two that ls by (intro concat_pairs_nth) simp_all
    also have "\<dots> = add_rows (estimate_source ! i) (estimate_source ! (i + h)) ! c"
      by (simp only: si [OF that(1)])
    also have "\<dots> = map2 (+) (estimate_source ! i ! c) (estimate_source ! (i + h) ! c)"
    proof -
      have "length (estimate_source ! i) = 2" "length (estimate_source ! (i + h)) = 2"
        using assms(1,3) that(1) by simp_all
      with that(2) show ?thesis by (simp add: add_rows_def)
    qed
    finally show ?thesis .
  qed
  from r rows concat_pairs_length [OF two] ls show ?thesis by simp
qed

text \<open>
  C6 as stated fails: with two examples the remix adds the first sources of the two
  examples and their second sources, not the two sources of each example.
\<close>

theorem remix_own_sources_counterexample:
  "remix ex_estimate = Inr [[11, 22], [33, 44]] \<and>
   own_sources_remix ex_estimate = [[4, 6], [40, 60]]"
  by (simp add: remix_def torch_chunk2_def tensor_add_def add_rows_def
      own_sources_remix_def ex_estimate_def)

theorem remix_mixes_batch_halves_witness:
  "remix ex_estimate = Inr [[11, 22], [33, 44]] \<and>
   [[11, 22], [33, 44]] ! (2 * 0 + 1) =
     map2 (+) (ex_estimate ! 0 ! 1) (ex_estimate ! (0 + 1) ! 1)"
proof -
  have a: "length ex_estimate = 2 * 1" by (simp add: ex_estimate_def)
  have b: "\<forall>e \<in> set ex_estimate. length e = 2" by (simp add: ex_estimate_def)
  from remix_mixes_batch_halves [OF a _ b] obtain rows where
    "remix ex_estimate = Inr rows"
    and "\<forall>i < 1. \<forall>c < 2. rows ! (2 * i + c) =
               map2 (+) (ex_estimate ! i ! c) (ex_estimate ! (i + 1) ! c)"
    by auto
  moreover have "remix ex_estimate = Inr [[11, 22], [33, 44]]"
    by (simp add: remix_def torch_chunk2_def tensor_add_def add_rows_def ex_estimate_def)
  ultimately show ?thesis by auto
qed

section \<open>Properties of the feature-statistics pre-pass\<close>

lemma weighted_stat_nth:
  assumes "c < n"
  shows "weighted_stat n (map (\<lambda>a. (f a, t a)) xs) ! c =
         frame_weighted_average (map (\<lambda>a. (f a ! c, t a)) xs)"
  using assms
  by (simp add: weighted_stat_def frame_weighted_average_def o_def)

lemma weighted_stat_length: "length (weighted_stat n stats) = n"
  by (simp add: weighted_stat_def)

lemma frame_mean_nth:
  assumes "c < length spec" and "length (spec ! c) = n_frames spec"
  shows "frame_mean spec ! c = mean_of (spec ! c)"
  using assms by (simp add: frame_mean_def mean_of_def)

lemma frame_sq_dev_nth:
  assumes "c < length spec" and "c < length m" and "length (spec ! c) = n_frames spec"
  shows "frame_sq_dev m spec ! c = mean_of (map (\<lambda>x. (x - m ! c)\<^sup>2) (spec ! c))"
  using assms by (simp add: frame_sq_dev_def mean_of_def)

lemma freeze_module_replicate: "freeze_module params = replicate (length params) False"
  by (simp add: freeze_module_def map_replicate_const)

lemma comp_norm_stat_value:
  assumes ne: "tr_list \<noteq> []"
    and shape: "\<forall>a \<in> set tr_list. length (encoder a) = n \<and> 0 < n_frames (encoder a)"
  shows "comp_norm_stat encoder tr_list =
     Inr (Stat (weighted_stat n (map (\<lambda>a. (frame_mean (encoder a), n_frames (encoder a))) tr_list))
       (weighted_stat n (map (\<lambda>a. (frame_sq_dev
            (weighted_stat n (map (\<lambda>a. (frame_mean (encoder a), n_frames (encoder a))) tr_list))
            (encoder a), n_frames (encoder a))) tr_list)))"
proof -
  let ?mean = "map (\<lambda>a. (frame_mean (encoder a), n_frames (encoder a))) tr_list"
  have m0: "?mean \<noteq> []" using ne by simp
  have "hd tr_list \<in> set tr_list" using ne by simp
  with shape have "length (encoder (hd tr_list)) = n" by blast
  then have n: "length (fst (hd ?mean)) = n" using ne by (simp add: hd_map frame_mean_def)
  have e1: "\<not> list_ex (\<lambda>(m, t). length m \<noteq> n) ?mean"
    using shape by (auto simp: list_ex_iff frame_mean_def)
  have e2: "\<not> list_ex (\<lambda>(m, t). t = 0) ?mean"
    using shape by (auto simp: list_ex_iff)
  show ?thesis
    unfolding comp_norm_stat_def Let_def n if_not_P [OF m0] if_not_P [OF e1] if_not_P [OF e2]
    by (rule refl)
qed

text \<open>
  C8. The pre-pass computes the statistics in two passes weighted by frame count:
  for every channel the mean is the frame-count-weighted average of the utterances'
  feature means, and the variance is the frame-count-weighted average of the
  utterances' mean squared deviations from that mean; the statistics are stored in
  the model, and every parameter of the encoder and of the decoder has
  \<open>requires_grad = False\<close>.
\<close>

theorem comp_norm_stat_weighted:
  assumes ne: "tr_list \<noteq> []"
    and shape: "\<forall>a \<in> set tr_list. length (encoder a) = n \<and> 0 < n_frames (encoder a) \<and>
                  (\<forall>row \<in> set (encoder a). length row = n_frames (encoder a))"
    and c: "c < n"
  shows "\<exists>m v. comp_norm_stat encoder tr_list = Inr (Stat m v) \<and>
           length m = n \<and> length v = n \<and>
           m ! c = frame_weighted_average
                     (map (\<lambda>a. (mean_of (encoder a ! c), n_frames (encoder a))) tr_list) \<and>
           v ! c = frame_weighted_average
                     (map (\<lambda>a. (mean_of (map (\<lambda>x. (x - m ! c)\<^sup>2) (encoder a ! c)),
                                n_frames (encoder a))) tr_list) \<and>
           cmvn_prepass encoder tr_list model =
             Inr (model\<lparr>encoder_requires_grad :=
                           replicate (length (encoder_requires_grad model)) False,
                         decoder_requires_grad :=
                           replicate (length (decoder_requires_grad model)) False,
                         norm_stat := Some (Stat m v)\<rparr>)"
proof -
  define m where
    "m = weighted_stat n (map (\<lambda>a. (frame_mean (encoder a), n_frames (encoder a))) tr_list)"
  define v where
    "v = weighted_stat n (map (\<lambda>a. (frame_sq_dev m (encoder a), n_frames (encoder a))) tr_list)"
  have shape': "\<forall>a \<in> set tr_list. length (encoder a) = n \<and> 0 < n_frames (encoder a)"
    using shape by blast
  have val: "comp_norm_stat encoder tr_list = Inr (Stat m v)"
    unfolding m_def v_def using ne shape' by (rule comp_norm_stat_value)
  have lm: "length m = n" and lv: "length v = n"
    by (simp_all add: m_def v_def weighted_stat_length)
  have row: "length (encoder a ! c) = n_frames (encoder a)" and lc: "c < length (encoder a)"
    if "a \<in> set tr_list" for a
  proof -
    from shape that have l: "length (encoder a) = n"
      and r: "\<forall>row \<in> set (encoder a). length row = n_frames (encoder a)" by blast+
    from l c show "c < length (encoder a)" by simp
    then have "encoder a ! c \<in> set (encoder a)" by (rule nth_mem)
    with r show "length (encoder a ! c) = n_frames (encoder a)" by blast
  qed
  have "m ! c = frame_weighted_average
                  (map (\<lambda>a. (frame_mean (encoder a) ! c, n_frames (encoder a))) tr_list)"
    unfolding m_def using c by (rule weighted_stat_nth)
  also have "map (\<lambda>a. (frame_mean (encoder a) ! c, n_frames (encoder a))) tr_list =
             map (\<lambda>a. (mean_of (encoder a ! c), n_frames (encoder a))) tr_list"
    by (rule map_cong [OF refl]) (simp add: frame_mean_nth row lc)
  finally have mc: "m ! c = frame_weighted_average
                     (map (\<lambda>a. (mean_of (encoder a ! c), n_frames (encoder a))) tr_list)" .
  have "v ! c = frame_weighted_average
                  (map (\<lambda>a. (frame_sq_dev m (encoder a) ! c, n_frames (encoder a))) tr_list)"
    unfolding v_def using c by (rule weighted_stat_nth)
  also have "map (\<lambda>a. (frame_sq_dev m (encoder a) ! c, n_frames (encoder a))) tr_list =
             map (\<lambda>a. (mean_of (map (\<lambda>x. (x - m ! c)\<^sup>2) (encoder a ! c)),
                        n_frames (encoder a))) tr_list"
    by (rule map_cong [OF refl]) (simp add: frame_sq_dev_nth row lc lm c)
  finally have vc: "v ! c = frame_weighted_average
                     (map (\<lambda>a. (mean_of (map (\<lambda>x. (x - m ! c)\<^sup>2) (encoder a ! c)),
                                n_frames (encoder a))) tr_list)" .
  have pre: "cmvn_prepass encoder tr_list model =
             Inr (model\<lparr>encoder_requires_grad :=
                           replicate (length (encoder_requires_grad model)) False,
                         decoder_requires_grad :=
                           replicate (length (decoder_requires_grad model)) False,
                         norm_stat := Some (Stat m v)\<rparr>)"
    by (simp add: cmvn_prepass_def val set_mv_def set_model_freeze_def
        freeze_module_replicate)
  from val lm lv mc vc pre show ?thesis by blast
qed

theorem comp_norm_stat_weighted_witness:
  "comp_norm_stat id ex_corpus = Inr (Stat [4] [26 / 3]) \<and>
   frame_weighted_average (map (\<lambda>a. (mean_of (a ! 0), n_frames a)) ex_corpus) = 4 \<and>
   frame_weighted_average
     (map (\<lambda>a. (mean_of (map (\<lambda>x. (x - 4)\<^sup>2) (a ! 0)), n_frames a)) ex_corpus) = 26 / 3 \<and>
   cmvn_prepass id ex_corpus ex_model =
     Inr \<lparr>encoder_requires_grad = [False], separator_requires_grad = [True, True],
          decoder_requires_grad = [False], norm_stat = Some (Stat [4] [26 / 3])\<rparr>"
proof -
  have ne: "ex_corpus \<noteq> []" by (simp add: ex_corpus_def)
  have sh: "\<forall>a \<in> set ex_corpus. length (id a) = 1 \<and> 0 < n_frames (id a) \<and>
              (\<forall>row \<in> set (id a). length row = n_frames (id a))"
    by (simp add: ex_corpus_def n_frames_def)
  have val: "comp_norm_stat id ex_corpus = Inr (Stat [4] [26 / 3])"
    by (simp add: comp_norm_stat_def ex_corpus_def frame_mean_def frame_sq_dev_def
        n_frames_def weighted_stat_def Let_def power2_eq_square)
  from comp_norm_stat_weighted [OF ne sh zero_less_one, of ex_model] obtain m v where
    r: "comp_norm_stat id ex_corpus = Inr (Stat m v)"
    "m ! 0 = frame_weighted_average
                     (map (\<lambda>a. (mean_of (id a ! 0), n_frames (id a))) ex_corpus)"
    "v ! 0 = frame_weighted_average
                     (map (\<lambda>a. (mean_of (map (\<lambda>x. (x - m ! 0)\<^sup>2) (id a ! 0)),
                                n_frames (id a))) ex_corpus)"
    "cmvn_prepass id ex_corpus ex_model =
             Inr (ex_model\<lparr>encoder_requires_grad :=
                           replicate (length (encoder_requires_grad ex_model)) False,
                         decoder_requires_grad :=
                           replicate (length (decoder_requires_grad ex_model)) False,
                         norm_stat := Some (Stat m v)\<rparr>)"
    by blast
  from r(1) val have mv: "m = [4]" "v = [26 / 3]" by simp_all
  from r(2-4) val show ?thesis by (simp add: mv ex_model_def)
qed

section \<open>Properties of the domain classifier\<close>

lemma load_name_layers: "map_of locals ''layers'' = None \<Longrightarrow>
    load_name locals ''layers'' = Inl (NameError ''layers'')"
  by (simp add: load_name_def module_globals_def builtins_def)

lemma load_name_enumerate: "map_of locals ''enumerate'' = None \<Longrightarrow>
    load_name locals ''enumerate'' = Inr (PObj ''enumerate'')"
  by (simp add: load_name_def module_globals_def builtins_def)

lemma DomainClassifier_conv_raises:
  assumes "subscript config ''type'' = Inr (PStr ''conv'')"
  shows "DomainClassifier_init B config = Inl (NameError ''layers'')"
  by (simp add: DomainClassifier_init_def assms Let_def conv_branch_def
      load_name_layers load_name_enumerate)

lemma DomainClassifier_conv2d_raises:
  assumes "subscript config ''type'' = Inr (PStr ''conv2d-patch'')"
  shows "DomainClassifier_init B config = Inl (NameError ''Conv2dClassifier'')"
  by (simp add: DomainClassifier_init_def assms Let_def load_name_def
      module_globals_def builtins_def)

text \<open>
  C10. The claim has the type \<open>'conv'\<close> always raise and the types \<open>'conv-patch'\<close>,
  \<open>'conv2d-patch'\<close> and \<open>'LSTM'\<close> construct. On one configuration, complete for all
  three convolutional types: \<open>'conv'\<close> raises \<open>NameError\<close> on \<open>layers\<close>,
  \<open>'conv-patch'\<close> constructs, and \<open>'conv2d-patch'\<close> raises \<open>NameError\<close> on
  \<open>Conv2dClassifier\<close>, a class that the module neither defines nor imports.
\<close>

theorem DomainClassifier_conv2d_patch_raises:
  "DomainClassifier_init 64 (ex_cls_config ''conv'') = Inl (NameError ''layers'') \<and>
   DomainClassifier_init 64 (ex_cls_config ''conv-patch'') =
     Inr \<lparr>mtype = PStr ''conv-patch'', network = Some ConvPatchNet\<rparr> \<and>
   DomainClassifier_init 64 (ex_cls_config ''conv2d-patch'') =
     Inl (NameError ''Conv2dClassifier'')"
  by (simp add: DomainClassifier_init_def ex_cls_config_def subscript_def dict_get_def
      conv_branch_def load_name_def module_globals_def builtins_def
      ConvPatchClassifier_init_def for_layers_def layer_keys_def enumerate_eq_zip Let_def)

end
